theory Spec2Isabelle
  imports Main "HOL-Library.Word" "HOL-Library.AList"
begin

section \<open>Bytes, strings and errors\<close>

text \<open>
  The codec of \<^verbatim>\<open>imagej_tiff_meta/wrapper.py\<close> works on Python \<^verbatim>\<open>bytes\<close>
  objects and on numpy structured records laid over them.  A byte is an 8-bit word, a
  Python \<^verbatim>\<open>str\<close> is the list of its Unicode code points (so that \<^verbatim>\<open>len(name)\<close>
  is the length of the list), and Python integers are \<open>int\<close>.
\<close>

type_synonym byte = "8 word"
type_synonym bytes = "byte list"
type_synonym pystr = "nat list"

text \<open>
  Every exception that the modelled code can raise is a value.  \<open>BufferTooShort\<close> is
  numpy's \<^verbatim>\<open>TypeError: buffer is too small for requested array\<close>.
\<close>

datatype error =
    BufferTooShort
  | NegativeDimensions
  | EmptyReduction
  | OverflowError
  | AttributeError
  | IndexError
  | TypeError
  | ValueError
  | UnicodeEncodeError
  | UnicodeDecodeError

definition ascii :: "string \<Rightarrow> pystr" where
  "ascii s = map of_char s"

definition byte_of_char :: "char \<Rightarrow> byte" where
  "byte_of_char c = of_char c"

section \<open>Big-endian integers\<close>

text \<open>
  \<open>be_enc n v\<close> is the \<open>n\<close>-byte big-endian two's-complement image of \<open>v\<close>, that is
  of \<open>v mod 256 ^ n\<close>; \<open>be_dec_u\<close> and \<open>be_dec_s\<close> read a byte string as an unsigned
  and as a signed big-endian integer.
\<close>

fun be_enc :: "nat \<Rightarrow> int \<Rightarrow> bytes" where
  "be_enc 0 v = []"
| "be_enc (Suc n) v = be_enc n (v div 256) @ [word_of_int v]"

definition be_dec_u :: "bytes \<Rightarrow> int" where
  "be_dec_u bs = foldl (\<lambda>a b. a * 256 + uint b) 0 bs"

definition be_dec_s :: "bytes \<Rightarrow> int" where
  "be_dec_s bs =
     (let u = be_dec_u bs; n = length bs
      in if n \<noteq> 0 \<and> 2 ^ (8 * n - 1) \<le> u then u - 2 ^ (8 * n) else u)"

section \<open>Field layouts (numpy structured dtypes)\<close>

text \<open>
  A layout is the list of (name, type) pairs that the source hands to \<^verbatim>\<open>np.recarray\<close>:
  \<^verbatim>\<open>'4a1'\<close> is four one-byte strings, \<^verbatim>\<open>i1 u1 i2 i4\<close> are integers and \<^verbatim>\<open>f4\<close> is
  a single-precision float.  The records are packed (\<^verbatim>\<open>aligned=False\<close>) and big-endian
  (\<^verbatim>\<open>newbyteorder('>')\<close>).
\<close>

datatype ftype = A1x4 | I1 | U1 | I2 | I4 | F4

fun fsize :: "ftype \<Rightarrow> nat" where
  "fsize A1x4 = 4"
| "fsize I1 = 1"
| "fsize U1 = 1"
| "fsize I2 = 2"
| "fsize I4 = 4"
| "fsize F4 = 4"

type_synonym dtype = "(string \<times> ftype) list"

definition CONSTANT_MAGIC_NUMBER :: int where "CONSTANT_MAGIC_NUMBER = 0x494a494a"
definition CONSTANT_ROI :: int where "CONSTANT_ROI = 0x726f6920"
definition CONSTANT_OVERLAY :: int where "CONSTANT_OVERLAY = 0x6f766572"

definition CONST_IJ_POLYGON :: int where "CONST_IJ_POLYGON = 0"
definition CONST_IJ_RECT :: int where "CONST_IJ_RECT = 1"
definition CONST_IJ_OVAL :: int where "CONST_IJ_OVAL = 2"
definition CONST_IJ_LINE :: int where "CONST_IJ_LINE = 3"
definition CONST_IJ_FREELINE :: int where "CONST_IJ_FREELINE = 4"
definition CONST_IJ_POLYLINE :: int where "CONST_IJ_POLYLINE = 5"
definition CONST_IJ_NOROI :: int where "CONST_IJ_NOROI = 6"
definition CONST_IJ_FREEHAND :: int where "CONST_IJ_FREEHAND = 7"
definition CONST_IJ_TRACED :: int where "CONST_IJ_TRACED = 8"
definition CONST_IJ_ANGLE :: int where "CONST_IJ_ANGLE = 9"
definition CONST_IJ_POINT :: int where "CONST_IJ_POINT = 10"

definition IMAGEJ_ROI_HEADER :: dtype where
  "IMAGEJ_ROI_HEADER =
    [(''_iout'', A1x4),
     (''version'', I2),
     (''roi_type'', I1),
     (''_pad_byte'', U1),
     (''top'', I2),
     (''left'', I2),
     (''bottom'', I2),
     (''right'', I2),
     (''n_coordinates'', I2),
     (''x1'', I4),
     (''y1'', I4),
     (''x2'', I4),
     (''y2'', I4),
     (''stroke_width'', I2),
     (''shape_roi_size'', I4),
     (''stroke_color'', I4),
     (''fill_color'', I4),
     (''subtype'', I2),
     (''options'', I2),
     (''arrow_style_or_aspect_ratio'', U1),
     (''arrow_head_size'', U1),
     (''rounded_rect_arc_size'', I2),
     (''position'', I4),
     (''header2_offset'', I4)]"

definition IMAGEJ_ROI_HEADER2 :: dtype where
  "IMAGEJ_ROI_HEADER2 =
    [(''_nil'', I4),
     (''c'', I4),
     (''z'', I4),
     (''t'', I4),
     (''name_offset'', I4),
     (''name_length'', I4),
     (''overlay_label_color'', I4),
     (''overlay_font_size'', I2),
     (''available_byte1'', I1),
     (''image_opacity'', I1),
     (''image_size'', I4),
     (''float_stroke_width'', F4),
     (''roi_props_offset'', I4),
     (''roi_props_length'', I4),
     (''counters_offset'', I4)]"

definition IMAGEJ_META_HEADER :: dtype where
  "IMAGEJ_META_HEADER = [(''magic'', I4), (''type'', I4), (''count'', I4)]"

definition IJM_ROI_VERSION :: int where "IJM_ROI_VERSION = 226"

definition IMAGEJ_SUPPORTED_OVERLAYS :: "int list" where
  "IMAGEJ_SUPPORTED_OVERLAYS =
    [CONST_IJ_POLYGON, CONST_IJ_FREEHAND, CONST_IJ_TRACED, CONST_IJ_POLYLINE,
     CONST_IJ_FREELINE, CONST_IJ_ANGLE, CONST_IJ_POINT]"

text \<open>\<^verbatim>\<open>dtype.itemsize\<close>: the size of a packed record is the sum of its field sizes.\<close>

definition itemsize :: "dtype \<Rightarrow> nat" where
  "itemsize dt = sum_list (map (\<lambda>(k, ty). fsize ty) dt)"

text \<open>The offset and the type of a named field, \<open>None\<close> when the layout has no such field.\<close>

fun field_at :: "dtype \<Rightarrow> string \<Rightarrow> (nat \<times> ftype) option" where
  "field_at [] key = None"
| "field_at ((k, ty) # dt) key =
     (if k = key then Some (0, ty)
      else (case field_at dt key of
              None \<Rightarrow> None
            | Some (off, ty') \<Rightarrow> Some (fsize ty + off, ty')))"


section \<open>Records over byte buffers\<close>

text \<open>
  A numpy record is a view of \<open>itemsize\<close> bytes under a layout: reading a field decodes
  the bytes at the field's offset, writing one overwrites them, and \<^verbatim>\<open>tobytes()\<close> is
  the byte list itself.  Values that leave the record are Python values; a float keeps
  its 32 raw bits, since no arithmetic is ever done on it.
\<close>

datatype pyval =
    PyNone
  | PyInt int
  | PyFloat32 int
  | PyBytes bytes
  | PyStr pystr
  | PyArray "(int \<times> int) list"

fun decode_field :: "ftype \<Rightarrow> bytes \<Rightarrow> pyval" where
  "decode_field A1x4 bs = PyBytes bs"
| "decode_field I1 bs = PyInt (be_dec_s bs)"
| "decode_field U1 bs = PyInt (be_dec_u bs)"
| "decode_field I2 bs = PyInt (be_dec_s bs)"
| "decode_field I4 bs = PyInt (be_dec_s bs)"
| "decode_field F4 bs = PyFloat32 (be_dec_u bs)"

definition then_do :: "error + 'a \<Rightarrow> ('a \<Rightarrow> error + 'b) \<Rightarrow> error + 'b" where
  "then_do m f = (case m of Inl e \<Rightarrow> Inl e | Inr x \<Rightarrow> f x)"

text \<open>\<^verbatim>\<open>record.__getattribute__\<close> on a field name.\<close>

definition getattr :: "dtype \<Rightarrow> bytes \<Rightarrow> string \<Rightarrow> error + pyval" where
  "getattr dt rec key =
     (case field_at dt key of
        None \<Rightarrow> Inl AttributeError
      | Some (off, ty) \<Rightarrow> Inr (decode_field ty (take (fsize ty) (drop off rec))))"

definition getint :: "dtype \<Rightarrow> bytes \<Rightarrow> string \<Rightarrow> error + int" where
  "getint dt rec key =
     then_do (getattr dt rec key) (\<lambda>v. case v of PyInt i \<Rightarrow> Inr i | _ \<Rightarrow> Inl TypeError)"

text \<open>
  \<^verbatim>\<open>record.__setattr__\<close> with an integer value.  numpy 1.x (the source needs it:
  \<^verbatim>\<open>np.asscalar\<close>, \<^verbatim>\<open>ndarray.newbyteorder\<close>) converts the value to a C \<^verbatim>\<open>long\<close>,
  raising \<^verbatim>\<open>OverflowError\<close> outside 64 bits, and then truncates it silently to the
  width of the field.  The source assigns integers to integer fields only.
\<close>

definition setattr_int :: "dtype \<Rightarrow> bytes \<Rightarrow> string \<Rightarrow> int \<Rightarrow> error + bytes" where
  "setattr_int dt rec key v =
     (case field_at dt key of
        None \<Rightarrow> Inl AttributeError
      | Some (off, ty) \<Rightarrow>
          if ty = A1x4 \<or> ty = F4 then Inl TypeError
          else if v < - (2 ^ 63) \<or> 2 ^ 63 \<le> v then Inl OverflowError
          else Inr (take off rec @ be_enc (fsize ty) v @ drop (off + fsize ty) rec))"

text \<open>
  \<^verbatim>\<open>record.__setattr__\<close> with a numpy integer scalar.  The scalar is cast to the type
  of the field as the C cast does it, keeping the low bytes, and nothing is raised.
\<close>

definition setattr_scalar :: "dtype \<Rightarrow> bytes \<Rightarrow> string \<Rightarrow> int \<Rightarrow> error + bytes" where
  "setattr_scalar dt rec key v =
     (case field_at dt key of
        None \<Rightarrow> Inl AttributeError
      | Some (off, ty) \<Rightarrow>
          if ty = A1x4 \<or> ty = F4 then Inl TypeError
          else Inr (take off rec @ be_enc (fsize ty) v @ drop (off + fsize ty) rec))"

text \<open>Assignment of a tuple of one-byte strings to a \<^verbatim>\<open>'4a1'\<close> field.\<close>

definition setattr_chars :: "dtype \<Rightarrow> bytes \<Rightarrow> string \<Rightarrow> bytes \<Rightarrow> error + bytes" where
  "setattr_chars dt rec key cs =
     (case field_at dt key of
        None \<Rightarrow> Inl AttributeError
      | Some (off, ty) \<Rightarrow>
          if ty \<noteq> A1x4 then Inl TypeError
          else if length cs \<noteq> 4 then Inl ValueError
          else Inr (take off rec @ cs @ drop (off + 4) rec))"

text \<open>
  \<^verbatim>\<open>tmp.fill(0)\<close> stores the value 0 in every field: zero bytes in a number, and in
  each one-byte string of a \<^verbatim>\<open>'4a1'\<close> field the text of 0, the character \<^verbatim>\<open>0\<close>
  (byte \<^verbatim>\<open>0x30\<close>).
\<close>

fun fill_0 :: "ftype \<Rightarrow> bytes" where
  "fill_0 A1x4 = replicate 4 0x30"
| "fill_0 I1 = replicate 1 0"
| "fill_0 U1 = replicate 1 0"
| "fill_0 I2 = replicate 2 0"
| "fill_0 I4 = replicate 4 0"
| "fill_0 F4 = replicate 4 0"

text \<open>
  \<^verbatim>\<open>new_record(dtype, data, offset)\<close>.  Without a buffer the record is new memory that
  \<^verbatim>\<open>fill(0)\<close> initializes.  With a buffer, numpy refuses one that holds fewer than
  \<open>offset + itemsize\<close> bytes and checks nothing else: a negative offset that passes
  this test gives a view that starts before the buffer.  What the process holds there is
  not a function of the buffer, so a buffer comes with the memory in front of it: \<open>mem i\<close>,
  for \<open>i < 0\<close>, is the byte found \<open>- i\<close> bytes before the first byte of the buffer.
\<close>

type_synonym memory = "int \<Rightarrow> byte"

definition new_record :: "dtype \<Rightarrow> (bytes \<times> memory) option \<Rightarrow> int \<Rightarrow> error + bytes" where
  "new_record dt data offset =
     (case data of
        None \<Rightarrow> Inr (concat (map (\<lambda>(k, ty). fill_0 ty) dt))
      | Some (d, mem) \<Rightarrow>
          if int (length d) < offset + int (itemsize dt) then Inl BufferTooShort
          else if offset < 0
          then Inr (map mem [offset .. min (- 1) (offset + int (itemsize dt) - 1)]
                    @ take (nat (offset + int (itemsize dt))) d)
          else Inr (take (itemsize dt) (drop (nat offset) d)))"

section \<open>Python built-ins used by the codec\<close>

text \<open>Slicing \<^verbatim>\<open>xs[a:b]\<close>: negative indices count from the end, and both are clamped.\<close>

definition py_slice :: "'a list \<Rightarrow> int \<Rightarrow> int \<Rightarrow> 'a list" where
  "py_slice xs a b =
     (let n = int (length xs);
          a' = (if a < 0 then max 0 (a + n) else min a n);
          b' = (if b < 0 then max 0 (b + n) else min b n)
      in take (nat (b' - a')) (drop (nat a') xs))"

text \<open>
  The \<^verbatim>\<open>%\<close> conversions \<^verbatim>\<open>%d\<close>, \<^verbatim>\<open>%02d\<close> and \<^verbatim>\<open>%x\<close>: an optional minus sign,
  zeros up to the width, and the digits of the absolute value, lowercase in base 16.
\<close>

definition digit_char :: "nat \<Rightarrow> nat" where
  "digit_char d = (if d < 10 then 48 + d else 87 + d)"

function digits :: "nat \<Rightarrow> nat \<Rightarrow> pystr" where
  "digits b n =
     (if b < 2 \<or> n < b then [digit_char n] else digits b (n div b) @ [digit_char (n mod b)])"
  by pat_completeness auto
termination
  by (relation "measure (\<lambda>(b, n). n)") auto

declare digits.simps [simp del]

definition fmt_int :: "nat \<Rightarrow> nat \<Rightarrow> int \<Rightarrow> pystr" where
  "fmt_int b w v =
     (let sign = (if v < 0 then ascii ''-'' else []);
          ds = digits b (nat \<bar>v\<bar>)
      in sign @ replicate (w - length sign - length ds) 48 @ ds)"

text \<open>
  \<^verbatim>\<open>str.encode('utf-16be')\<close>: two bytes for a code point of the basic plane, a
  surrogate pair above it, \<^verbatim>\<open>UnicodeEncodeError\<close> for a lone surrogate.
\<close>

fun utf16be_encode :: "pystr \<Rightarrow> error + bytes" where
  "utf16be_encode [] = Inr []"
| "utf16be_encode (cp # cps) =
     (if (0xD800 \<le> cp \<and> cp < 0xE000) \<or> 0x110000 \<le> cp then Inl UnicodeEncodeError
      else then_do (utf16be_encode cps) (\<lambda>rest.
        if cp < 0x10000 then Inr (be_enc 2 (int cp) @ rest)
        else Inr (be_enc 2 (int (0xD800 + (cp - 0x10000) div 0x400))
                  @ be_enc 2 (int (0xDC00 + (cp - 0x10000) mod 0x400)) @ rest)))"

text \<open>
  \<^verbatim>\<open>str(b, 'utf-16be')\<close> with strict error handling: an odd number of bytes, a lone
  surrogate or a high surrogate without its low one is a \<^verbatim>\<open>UnicodeDecodeError\<close>.
\<close>

fun utf16be_decode :: "bytes \<Rightarrow> error + pystr" where
  "utf16be_decode [] = Inr []"
| "utf16be_decode [a] = Inl UnicodeDecodeError"
| "utf16be_decode (a # b # bs) =
     (let u = nat (be_dec_u [a, b])
      in if u < 0xD800 \<or> 0xE000 \<le> u then then_do (utf16be_decode bs) (\<lambda>rest. Inr (u # rest))
         else if 0xDC00 \<le> u then Inl UnicodeDecodeError
         else (case bs of
                 c # d # bs' \<Rightarrow>
                   (let l = nat (be_dec_u [c, d])
                    in if 0xDC00 \<le> l \<and> l < 0xE000
                       then then_do (utf16be_decode bs') (\<lambda>rest.
                              Inr ((0x10000 + (u - 0xD800) * 0x400 + (l - 0xDC00)) # rest))
                       else Inl UnicodeDecodeError)
               | _ \<Rightarrow> Inl UnicodeDecodeError))"


section \<open>The ROI record encoder\<close>

text \<open>
  The \<open>points\<close> argument of the encoder is a numpy array of shape \<open>(n, 2)\<close> whose elements
  are integers of one of numpy's eight integer types.  The model takes the element type
  and the list of the rows; \<open>np_array dt points\<close> says that every element is a value of
  the type.  Arithmetic inside the array is done in the element type and wraps around:
  \<open>np_wrap dt v\<close> is the value of the type that is congruent to \<open>v\<close>.  Arrays of other
  element kinds (floating point, boolean, object) are not modelled.
\<close>

datatype npint = Int8 | Int16 | Int32 | Int64 | UInt8 | UInt16 | UInt32 | UInt64

fun nbits :: "npint \<Rightarrow> nat" where
  "nbits Int8 = 8"
| "nbits Int16 = 16"
| "nbits Int32 = 32"
| "nbits Int64 = 64"
| "nbits UInt8 = 8"
| "nbits UInt16 = 16"
| "nbits UInt32 = 32"
| "nbits UInt64 = 64"

fun is_signed :: "npint \<Rightarrow> bool" where
  "is_signed Int8 = True"
| "is_signed Int16 = True"
| "is_signed Int32 = True"
| "is_signed Int64 = True"
| "is_signed UInt8 = False"
| "is_signed UInt16 = False"
| "is_signed UInt32 = False"
| "is_signed UInt64 = False"

definition np_min :: "npint \<Rightarrow> int" where
  "np_min dt = (if is_signed dt then - (2 ^ (nbits dt - 1)) else 0)"

definition np_max :: "npint \<Rightarrow> int" where
  "np_max dt = (if is_signed dt then 2 ^ (nbits dt - 1) - 1 else 2 ^ nbits dt - 1)"

definition np_value :: "npint \<Rightarrow> int \<Rightarrow> bool" where
  "np_value dt v = (np_min dt \<le> v \<and> v \<le> np_max dt)"

definition np_array :: "npint \<Rightarrow> (int \<times> int) list \<Rightarrow> bool" where
  "np_array dt points = list_all (\<lambda>(x, y). np_value dt x \<and> np_value dt y) points"

definition np_wrap :: "npint \<Rightarrow> int \<Rightarrow> int" where
  "np_wrap dt v = (v - np_min dt) mod 2 ^ nbits dt + np_min dt"

text \<open>
  \<^verbatim>\<open>imagej_create_roi(points, name, c, z, t, index)\<close>.  \<open>dt\<close> and \<open>points\<close> are the
  array, and \<open>rnd\<close> is the value that \<^verbatim>\<open>np.random.randint(0, 2**32 - 1)\<close> returns when
  it is called.  \<^verbatim>\<open>min()\<close> returns numpy scalars of the element type, the two in-place
  subtractions are done in the element type, and \<^verbatim>\<open>astype('>i2')\<close> keeps the low 16 bits
  of every element (all of an 8-bit one, extended by its sign).  The sum
  \<^verbatim>\<open>header.header2_offset + header2.itemsize\<close> of a 32-bit numpy scalar and a Python
  integer is a 64-bit numpy scalar, so it is exact.
\<close>

definition synth_name :: "pystr option \<Rightarrow> int \<Rightarrow> int option \<Rightarrow> int \<Rightarrow> pystr" where
  "synth_name name t index rnd =
     (case name of
        Some nm \<Rightarrow> nm
      | None \<Rightarrow>
          (case index of
             None \<Rightarrow> ascii ''F'' @ fmt_int 10 2 (t + 1) @ ascii ''-'' @ fmt_int 16 0 rnd
           | Some i \<Rightarrow> ascii ''F'' @ fmt_int 10 2 (t + 1) @ ascii ''-C'' @ fmt_int 10 0 i))"

text \<open>\<^verbatim>\<open>points.astype('>i2').tobytes(order='F')\<close>: the first column, then the second.\<close>

definition encode_points :: "(int \<times> int) list \<Rightarrow> bytes" where
  "encode_points pts =
     concat (map (\<lambda>p. be_enc 2 (fst p)) pts) @ concat (map (\<lambda>p. be_enc 2 (snd p)) pts)"

definition imagej_create_roi ::
  "npint \<Rightarrow> (int \<times> int) list \<Rightarrow> pystr option \<Rightarrow> int \<Rightarrow> int \<Rightarrow> int \<Rightarrow> int option \<Rightarrow> int
     \<Rightarrow> error + bytes"
where
  "imagej_create_roi dt points name c z t index rnd =
     (let name' = synth_name name t index rnd
      in if points = [] then Inl EmptyReduction
         else
           let left = min_list (map fst points);
               top = min_list (map snd points);
               points' = map (\<lambda>(x, y). (np_wrap dt (x - left), np_wrap dt (y - top))) points;
               encoded_data = encode_points points';
               encoded_data_size = int (length encoded_data)
           in
           then_do (new_record IMAGEJ_ROI_HEADER None 0) (\<lambda>header.
           then_do (setattr_chars IMAGEJ_ROI_HEADER header ''_iout'' (map byte_of_char ''Iout'')) (\<lambda>header.
           then_do (setattr_int IMAGEJ_ROI_HEADER header ''version'' IJM_ROI_VERSION) (\<lambda>header.
           then_do (setattr_int IMAGEJ_ROI_HEADER header ''roi_type'' CONST_IJ_FREEHAND) (\<lambda>header.
           then_do (setattr_scalar IMAGEJ_ROI_HEADER header ''left'' left) (\<lambda>header.
           then_do (setattr_scalar IMAGEJ_ROI_HEADER header ''top'' top) (\<lambda>header.
           then_do (setattr_int IMAGEJ_ROI_HEADER header ''n_coordinates'' (int (length points'))) (\<lambda>header.
           then_do (setattr_int IMAGEJ_ROI_HEADER header ''options'' 40) (\<lambda>header.
           then_do (setattr_int IMAGEJ_ROI_HEADER header ''position'' (t + 1)) (\<lambda>header.
           let header2_offset = int (itemsize IMAGEJ_ROI_HEADER) + encoded_data_size in
           then_do (setattr_int IMAGEJ_ROI_HEADER header ''header2_offset'' header2_offset) (\<lambda>header.
           then_do (new_record IMAGEJ_ROI_HEADER2 None 0) (\<lambda>header2.
           then_do (getint IMAGEJ_ROI_HEADER header ''header2_offset'') (\<lambda>h2off.
           then_do (setattr_scalar IMAGEJ_ROI_HEADER2 header2 ''name_offset''
                      (h2off + int (itemsize IMAGEJ_ROI_HEADER2))) (\<lambda>header2.
           then_do (setattr_int IMAGEJ_ROI_HEADER2 header2 ''name_length'' (int (length name'))) (\<lambda>header2.
           then_do (utf16be_encode name') (\<lambda>name_bytes.
           Inr (header @ encoded_data @ header2 @ name_bytes)))))))))))))))))"

section \<open>The ROI record decoder\<close>

fun pairs_of :: "bytes \<Rightarrow> bytes list" where
  "pairs_of (a # b # bs) = [a, b] # pairs_of bs"
| "pairs_of bs = []"

text \<open>
  \<^verbatim>\<open>np.ndarray(shape=(n, 2), dtype='>i2', buffer=buf, order='F').copy()\<close>: the buffer
  must hold \<open>4 * n\<close> bytes, a negative \<open>n\<close> is refused, and element \<open>(i, j)\<close> is the
  16-bit integer number \<open>i + j * n\<close> of the buffer.
\<close>

definition decode_coordinates :: "int \<Rightarrow> bytes \<Rightarrow> error + (int \<times> int) list" where
  "decode_coordinates n buf =
     (if int (length buf) < 2 * (n * 2) then Inl BufferTooShort
      else if n < 0 then Inl NegativeDimensions
      else Inr (zip (map be_dec_s (pairs_of (take (2 * nat n) buf)))
                    (map be_dec_s (pairs_of (take (2 * nat n) (drop (2 * nat n) buf))))))"

text \<open>
  The loop that copies every field whose name does not start with an underscore into the
  result dictionary, an association list in insertion order.
\<close>

fun insert_fields ::
  "dtype \<Rightarrow> bytes \<Rightarrow> string list \<Rightarrow> (string \<times> pyval) list \<Rightarrow> error + (string \<times> pyval) list"
where
  "insert_fields dt rec [] overlay = Inr overlay"
| "insert_fields dt rec (key # keys) overlay =
     (case key of
        [] \<Rightarrow> Inl IndexError
      | ch # _ \<Rightarrow>
          if ch = CHR ''_'' then insert_fields dt rec keys overlay
          else then_do (getattr dt rec key) (\<lambda>v.
                 insert_fields dt rec keys (AList.update key v overlay)))"

text \<open>
  \<^verbatim>\<open>imagej_parse_overlay(data)\<close>, with the memory in front of \<open>data\<close> that the second
  \<^verbatim>\<open>new_record\<close> reads when \<open>header2_offset\<close> is negative.  The products and sums of
  16-bit and 32-bit numpy scalars with Python integers are 64-bit numpy scalars, so they
  are exact.
\<close>

definition imagej_parse_overlay :: "memory \<Rightarrow> bytes \<Rightarrow> error + (string \<times> pyval) list" where
  "imagej_parse_overlay mem data =
     then_do (new_record IMAGEJ_ROI_HEADER (Some (data, mem)) 0) (\<lambda>header.
     then_do (getint IMAGEJ_ROI_HEADER header ''header2_offset'') (\<lambda>h2off.
     then_do (new_record IMAGEJ_ROI_HEADER2 (Some (data, mem)) h2off) (\<lambda>header2.
     then_do (getint IMAGEJ_ROI_HEADER2 header2 ''name_offset'') (\<lambda>name_offset.
     then_do (if name_offset > 0
              then then_do (getint IMAGEJ_ROI_HEADER2 header2 ''name_length'') (\<lambda>name_length.
                     utf16be_decode (py_slice data name_offset (name_offset + name_length * 2)))
              else Inr []) (\<lambda>name.
     let overlay = [(''name'', PyStr name), (''coordinates'', PyNone)] in
     then_do (getint IMAGEJ_ROI_HEADER header ''roi_type'') (\<lambda>roi_type.
     then_do (if roi_type \<in> set IMAGEJ_SUPPORTED_OVERLAYS
              then then_do (getint IMAGEJ_ROI_HEADER header ''n_coordinates'') (\<lambda>n.
                   then_do (decode_coordinates n
                              (py_slice data (int (itemsize IMAGEJ_ROI_HEADER))
                                 (int (itemsize IMAGEJ_ROI_HEADER) + 2 * 2 * n))) (\<lambda>arr.
                   Inr (AList.update ''coordinates'' (PyArray arr) overlay)))
              else Inr overlay) (\<lambda>overlay.
     then_do (insert_fields IMAGEJ_ROI_HEADER header (map fst IMAGEJ_ROI_HEADER) overlay) (\<lambda>overlay.
     insert_fields IMAGEJ_ROI_HEADER2 header2 (map fst IMAGEJ_ROI_HEADER2) overlay))))))))"

section \<open>The metadata block\<close>

definition imagej_prepare_metadata :: "bytes list \<Rightarrow> error + (bytes \<times> nat list)" where
  "imagej_prepare_metadata overlays =
     then_do (new_record IMAGEJ_META_HEADER None 0) (\<lambda>mh.
     then_do (setattr_int IMAGEJ_META_HEADER mh ''magic'' CONSTANT_MAGIC_NUMBER) (\<lambda>mh.
     then_do (setattr_int IMAGEJ_META_HEADER mh ''type'' CONSTANT_OVERLAY) (\<lambda>mh.
     then_do (setattr_int IMAGEJ_META_HEADER mh ''count'' (int (length overlays))) (\<lambda>mh.
     let meta_data = mh @ concat overlays;
         byte_counts = itemsize IMAGEJ_META_HEADER # map length overlays
     in Inr (meta_data, byte_counts)))))"

section \<open>The patched writer\<close>

text \<open>
  The state that the patch adds to a \<^verbatim>\<open>TiffWriter\<close>, together with the trace of the calls
  made to the library's own \<^verbatim>\<open>save\<close>, which is all the model keeps of the library.  A
  call is recorded with its image data, its \<^verbatim>\<open>extratags\<close> (empty when the argument is
  not passed) and its other keyword arguments, a dictionary given as an association list.
\<close>

datatype tagvalue = IntList "nat list" | ByteArray bytes

type_synonym extratag = "nat \<times> string \<times> nat \<times> tagvalue \<times> bool"

type_synonym 'v kwargs = "(string \<times> 'v) list"

datatype ('d, 'v) save_call = OriginalSave 'd "extratag list" "'v kwargs"

record ('d, 'v) TiffWriter =
  ijm_roi_data :: "bytes list"
  ijm_rois_per_frame :: "int \<rightharpoonup> int"
  ijm_first_written :: bool
  saved :: "('d, 'v) save_call list"

definition TiffWriter_init :: "('d, 'v) TiffWriter" where
  "TiffWriter_init =
     \<lparr>ijm_roi_data = [], ijm_rois_per_frame = Map.empty, ijm_first_written = False, saved = []\<rparr>"

definition original_save ::
  "('d, 'v) TiffWriter \<Rightarrow> 'd \<Rightarrow> extratag list \<Rightarrow> 'v kwargs \<Rightarrow> ('d, 'v) TiffWriter"
where
  "original_save self data extratags kwargs =
     self\<lparr>saved := saved self @ [OriginalSave data extratags kwargs]\<rparr>"

text \<open>
  \<^verbatim>\<open>add_roi\<close> counts the unnamed ROIs of each frame before it encodes, so the counter
  keeps its new value when the encoder raises.
\<close>

definition TiffWriter_add_roi ::
  "('d, 'v) TiffWriter \<Rightarrow> npint \<Rightarrow> (int \<times> int) list \<Rightarrow> pystr option \<Rightarrow> int \<Rightarrow> int \<Rightarrow> int \<Rightarrow> int
     \<Rightarrow> error option \<times> ('d, 'v) TiffWriter"
where
  "TiffWriter_add_roi self dt points name c z t rnd =
     (let (index, self) =
            (case name of
               Some nm \<Rightarrow> (None, self)
             | None \<Rightarrow>
                 (let m = ijm_rois_per_frame self;
                      m = (if m t = None then m(t \<mapsto> 0) else m);
                      k = (case m t of None \<Rightarrow> 0 | Some k \<Rightarrow> k) + 1
                  in (Some k, self\<lparr>ijm_rois_per_frame := m(t \<mapsto> k)\<rparr>)))
      in case imagej_create_roi dt points name c z t index rnd of
           Inl e \<Rightarrow> (Some e, self)
         | Inr roi \<Rightarrow> (None, self\<lparr>ijm_roi_data := ijm_roi_data self @ [roi]\<rparr>))"

text \<open>
  \<^verbatim>\<open>save\<close> as patched.  The keyword arguments of the caller are accepted and not passed
  on, on either path: the library's \<^verbatim>\<open>save\<close> is called with the data alone, or with the
  data and \<^verbatim>\<open>extratags\<close>.
\<close>

definition TiffWriter_new_save ::
  "('d, 'v) TiffWriter \<Rightarrow> 'd \<Rightarrow> 'v kwargs \<Rightarrow> error option \<times> ('d, 'v) TiffWriter"
where
  "TiffWriter_new_save self data kwargs =
     (if ijm_first_written self \<or> length (ijm_roi_data self) = 0
      then (None, original_save self data [] [])
      else
        case imagej_prepare_metadata (ijm_roi_data self) of
          Inl e \<Rightarrow> (Some e, self)
        | Inr (meta_data, byte_counts) \<Rightarrow>
            (let self = self\<lparr>ijm_first_written := True\<rparr>
             in (None, original_save self data
                   [(50838, ''I'', length byte_counts, IntList byte_counts, True),
                    (50839, ''B'', length meta_data, ByteArray meta_data, True)] [])))"


text \<open>
  A session is what a program does with one writer: it adds ROIs and it saves images, in
  any order.  An exception raised by a call leaves the writer as the call had made it by
  then, and the program goes on.
\<close>

datatype ('d, 'v) call =
    AddRoi npint "(int \<times> int) list" "pystr option" int int int int
  | Save 'd "'v kwargs"

fun perform :: "('d, 'v) TiffWriter \<Rightarrow> ('d, 'v) call \<Rightarrow> ('d, 'v) TiffWriter" where
  "perform self (AddRoi dt points name c z t rnd) =
     snd (TiffWriter_add_roi self dt points name c z t rnd)"
| "perform self (Save data kwargs) = snd (TiffWriter_new_save self data kwargs)"

definition session :: "('d, 'v) call list \<Rightarrow> ('d, 'v) TiffWriter" where
  "session calls = foldl perform TiffWriter_init calls"


section \<open>The two headers as the encoder fills them\<close>

text \<open>
  The bytes that the encoder's assignments leave in the two zero-filled records, written
  field by field in the order of the layouts; \<open>create_roi_unfold\<close> below proves that
  these are the records which \<open>imagej_create_roi\<close> serializes.
\<close>

definition roi_header_image :: "int \<Rightarrow> int \<Rightarrow> int \<Rightarrow> int \<Rightarrow> bytes" where
  "roi_header_image top_v left_v n t =
     map byte_of_char ''Iout'' @ be_enc 2 IJM_ROI_VERSION @ be_enc 1 CONST_IJ_FREEHAND @ [0]
     @ be_enc 2 top_v @ be_enc 2 left_v @ replicate 4 0 @ be_enc 2 n @ replicate 32 0
     @ be_enc 2 40 @ replicate 4 0 @ be_enc 4 (t + 1) @ be_enc 4 (64 + 4 * n)"

definition roi_header2_image :: "int \<Rightarrow> int \<Rightarrow> bytes" where
  "roi_header2_image name_offset name_length =
     replicate 16 0 @ be_enc 4 name_offset @ be_enc 4 name_length @ replicate 28 0"

text \<open>
  The items that the decoder's loop adds for one record: the fields whose names do not
  start with an underscore, in layout order, each decoded from its own bytes.
\<close>

fun public_items :: "dtype \<Rightarrow> bytes \<Rightarrow> (string \<times> pyval) list" where
  "public_items [] rec = []"
| "public_items ((k, ty) # dt) rec =
     (if take 1 k = ''_'' then [] else [(k, decode_field ty (take (fsize ty) rec))])
     @ public_items dt (drop (fsize ty) rec)"

section \<open>Layout sizes and field offsets\<close>

lemma itemsize_header: "itemsize IMAGEJ_ROI_HEADER = 64"
  by (simp add: itemsize_def IMAGEJ_ROI_HEADER_def)

lemma itemsize_header2: "itemsize IMAGEJ_ROI_HEADER2 = 52"
  by (simp add: itemsize_def IMAGEJ_ROI_HEADER2_def)

lemma itemsize_meta: "itemsize IMAGEJ_META_HEADER = 12"
  by (simp add: itemsize_def IMAGEJ_META_HEADER_def)

lemma be_enc_1: "be_enc (Suc 0) v = [word_of_int v]"
  by simp

lemma be_enc_2: "be_enc 2 v = [word_of_int (v div 256), word_of_int v]"
  by (simp add: numeral_2_eq_2)

lemma be_enc_4:
  "be_enc 4 v = [word_of_int (v div 16777216), word_of_int (v div 65536), word_of_int (v div 256), word_of_int v]"
  by (simp add: eval_nat_numeral div_mult2_eq[symmetric] zdiv_zmult2_eq[symmetric])

lemma length_be_enc: "length (be_enc n v) = n"
  by (induction n arbitrary: v) auto

lemma be_dec_u_snoc: "be_dec_u (bs @ [b]) = be_dec_u bs * 256 + uint b"
  by (simp add: be_dec_u_def)

lemma be_dec_u_enc: "be_dec_u (be_enc n v) = v mod 256 ^ n"
proof (induction n arbitrary: v)
  case 0
  then show ?case by (simp add: be_dec_u_def)
next
  case (Suc n)
  have "uint (word_of_int v :: 8 word) = v mod 256"
    by (simp add: uint_word_of_int take_bit_eq_mod)
  then have "be_dec_u (be_enc (Suc n) v) = (v div 256 mod 256 ^ n) * 256 + v mod 256"
    by (simp add: be_dec_u_snoc Suc.IH)
  also have "\<dots> = v mod (256 * 256 ^ n)"
    by (simp add: zmod_zmult2_eq)
  finally show ?case by simp
qed

lemma be_dec_s_enc:
  assumes "0 < n" "- (2 ^ (8 * n - 1)) \<le> v" "v < 2 ^ (8 * n - 1)"
  shows "be_dec_s (be_enc n v) = v"
proof -
  have p: "(256::int) ^ n = 2 ^ (8 * n)"
    by (simp add: power_mult)
  have h: "(2::int) ^ (8 * n) = 2 * 2 ^ (8 * n - 1)"
  proof -
    have "8 * n = Suc (8 * n - 1)" using assms(1) by simp
    then show ?thesis by (metis power_Suc)
  qed
  show ?thesis
  proof (cases "0 \<le> v")
    case True
    then have "v mod 2 ^ (8 * n) = v"
      using assms(3) h by (simp add: mod_pos_pos_trivial)
    then show ?thesis
      using assms by (simp add: be_dec_s_def be_dec_u_enc length_be_enc p Let_def)
  next
    case False
    have "v mod 2 ^ (8 * n) = (v + 2 ^ (8 * n)) mod 2 ^ (8 * n)"
      by simp
    also have "\<dots> = v + 2 ^ (8 * n)"
      using assms(2) h False by (intro mod_pos_pos_trivial) linarith+
    finally have "v mod 2 ^ (8 * n) = v + 2 ^ (8 * n)" .
    then show ?thesis
      using assms False h by (simp add: be_dec_s_def be_dec_u_enc length_be_enc p Let_def)
  qed
qed

lemma fields_header [simp]:
  "field_at IMAGEJ_ROI_HEADER ''_iout'' = Some (0, A1x4)"
  "field_at IMAGEJ_ROI_HEADER ''version'' = Some (4, I2)"
  "field_at IMAGEJ_ROI_HEADER ''roi_type'' = Some (6, I1)"
  "field_at IMAGEJ_ROI_HEADER ''top'' = Some (8, I2)"
  "field_at IMAGEJ_ROI_HEADER ''left'' = Some (10, I2)"
  "field_at IMAGEJ_ROI_HEADER ''n_coordinates'' = Some (16, I2)"
  "field_at IMAGEJ_ROI_HEADER ''options'' = Some (50, I2)"
  "field_at IMAGEJ_ROI_HEADER ''position'' = Some (56, I4)"
  "field_at IMAGEJ_ROI_HEADER ''header2_offset'' = Some (60, I4)"
  by (simp_all add: IMAGEJ_ROI_HEADER_def)

lemma fields_header2 [simp]:
  "field_at IMAGEJ_ROI_HEADER2 ''c'' = Some (4, I4)"
  "field_at IMAGEJ_ROI_HEADER2 ''z'' = Some (8, I4)"
  "field_at IMAGEJ_ROI_HEADER2 ''t'' = Some (12, I4)"
  "field_at IMAGEJ_ROI_HEADER2 ''name_offset'' = Some (16, I4)"
  "field_at IMAGEJ_ROI_HEADER2 ''name_length'' = Some (20, I4)"
  by (simp_all add: IMAGEJ_ROI_HEADER2_def)

lemma length_encode_points [simp]: "length (encode_points pts) = 4 * length pts"
  by (induction pts) (auto simp: encode_points_def length_be_enc)


lemma be_dec_u_bounds: "0 \<le> be_dec_u bs \<and> be_dec_u bs < 256 ^ length bs"
proof (induction bs rule: rev_induct)
  case Nil
  then show ?case by (simp add: be_dec_u_def)
next
  case (snoc b bs)
  have "0 \<le> uint b" "uint b < 256"
    using uint_bounded[of b] by simp_all
  with snoc show ?case
    by (simp add: be_dec_u_snoc)
qed

lemma be_dec_s_bounds4:
  assumes "length bs = 4"
  shows "- 2147483648 \<le> be_dec_s bs \<and> be_dec_s bs < 2147483648"
  using be_dec_u_bounds[of bs] assms by (auto simp: be_dec_s_def Let_def)

lemma replicate_num: "replicate (numeral k) x = x # replicate (pred_numeral k) x"
  by (simp add: numeral_eq_Suc)

lemma length_roi_header_image [simp]: "length (roi_header_image tp lf n t) = 64"
  by (simp add: roi_header_image_def length_be_enc)

lemma length_roi_header2_image [simp]: "length (roi_header2_image name_offset name_length) = 52"
  by (simp add: roi_header2_image_def length_be_enc)

lemma new_header: "new_record IMAGEJ_ROI_HEADER None 0 = Inr (replicate 4 0x30 @ replicate 60 0)"
  by (simp add: new_record_def IMAGEJ_ROI_HEADER_def replicate_num)

lemma new_header2: "new_record IMAGEJ_ROI_HEADER2 None 0 = Inr (replicate 52 0)"
  by (simp add: new_record_def IMAGEJ_ROI_HEADER2_def replicate_num)

lemma new_meta_header: "new_record IMAGEJ_META_HEADER None 0 = Inr (replicate 12 0)"
  by (simp add: new_record_def IMAGEJ_META_HEADER_def replicate_num)

lemma create_roi_unfold:
  "imagej_create_roi dt points name c z t index rnd =
     (if points = [] then Inl EmptyReduction
      else if 2 ^ 63 \<le> 64 + 4 * int (length points)
            \<or> t + 1 < - (2 ^ 63) \<or> 2 ^ 63 \<le> t + 1
            \<or> 2 ^ 63 \<le> int (length (synth_name name t index rnd))
           then Inl OverflowError
      else then_do (utf16be_encode (synth_name name t index rnd)) (\<lambda>name_bytes.
        Inr (roi_header_image (min_list (map snd points)) (min_list (map fst points))
               (int (length points)) t
             @ encode_points (map (\<lambda>(x, y). (np_wrap dt (x - min_list (map fst points)), np_wrap dt (y - min_list (map snd points)))) points)
             @ roi_header2_image (be_dec_s (be_enc 4 (64 + 4 * int (length points))) + 52)
                 (int (length (synth_name name t index rnd)))
             @ name_bytes)))"
  by (simp add: imagej_create_roi_def Let_def then_do_def new_header new_header2 itemsize_header
     itemsize_header2 setattr_int_def setattr_scalar_def setattr_chars_def getint_def getattr_def
     length_be_enc roi_header_image_def roi_header2_image_def
     IJM_ROI_VERSION_def CONST_IJ_FREEHAND_def split: sum.splits)

section \<open>Evaluation on concrete inputs\<close>

lemma be_dec_s_1: "be_dec_s [a] = (if 128 \<le> uint a then uint a - 256 else uint a)"
proof -
  have l: "length [a] = 1" by simp
  show ?thesis unfolding be_dec_s_def l by (simp add: be_dec_u_def Let_def)
qed

lemma be_dec_s_2: "be_dec_s [a, b] = (let u = uint a * 256 + uint b in if 32768 \<le> u then u - 65536 else u)"
proof -
  have l: "length [a, b] = 2" by simp
  show ?thesis unfolding be_dec_s_def l by (simp add: be_dec_u_def Let_def)
qed

lemma be_dec_s_4: "be_dec_s [a, b, c, d] = (let u = ((uint a * 256 + uint b) * 256 + uint c) * 256 + uint d in if 2147483648 \<le> u then u - 4294967296 else u)"
proof -
  have l: "length [a, b, c, d] = 4" by simp
  show ?thesis unfolding be_dec_s_def l by (simp add: be_dec_u_def Let_def)
qed

lemma scenario_encoded:
  "imagej_create_roi Int64 [(10, 20), (15, 20), (15, 25), (10, 25)] (Some (ascii ''cellA'')) 0 0 2 None 0 =
     Inr [73, 111, 117, 116, 0, 226, 7, 0, 0, 20, 0, 10, 0, 0, 0, 0, 0, 4, 0, 0, 0,
  0, 0, 0, 0, 0, 0, 0, 0, 0, 0, 0, 0, 0, 0, 0, 0, 0, 0, 0, 0, 0, 0, 0, 0, 0,
  0, 0, 0, 0, 0, 40, 0, 0, 0, 0, 0, 0, 0, 3, 0, 0, 0, 80, 0, 0, 0, 5, 0, 5,
  0, 0, 0, 0, 0, 0, 0, 5, 0, 5, 0, 0, 0, 0, 0, 0, 0, 0, 0, 0, 0, 0, 0, 0, 0,
  0, 0, 0, 0, 132, 0, 0, 0, 5, 0, 0, 0, 0, 0, 0, 0, 0, 0, 0, 0, 0, 0, 0, 0,
  0, 0, 0, 0, 0, 0, 0, 0, 0, 0, 0, 0, 0, 0, 99, 0, 101, 0, 108, 0, 108, 0,
  65]"
  by (simp add: create_roi_unfold roi_header_image_def roi_header2_image_def synth_name_def ascii_def
        then_do_def be_enc_1 be_enc_2 be_enc_4 IJM_ROI_VERSION_def CONST_IJ_FREEHAND_def
        byte_of_char_def encode_points_def be_dec_s_4 replicate_num np_wrap_def np_min_def)

lemma be_dec_s_zeros4: "be_dec_s (replicate 4 0) = 0"
  by (simp add: replicate_num be_dec_s_4)


section \<open>The primary header layout\<close>

text \<open>
  Claim C7, as the code has it: the primary ROI header layout has 24 fields, the first
  being the four-byte tag \<^verbatim>\<open>_iout\<close>; its serialized size is the sum of its field sizes,
  which is 64 bytes; and every record that the encoder returns starts with the tag bytes
  \<^verbatim>\<open>Iout\<close> and carries the version constant 226.
\<close>

theorem primary_header_layout:
  assumes "imagej_create_roi dt points name c z t index rnd = Inr bs"
  shows "length IMAGEJ_ROI_HEADER = 24
       \<and> IMAGEJ_ROI_HEADER ! 0 = (''_iout'', A1x4) \<and> fsize A1x4 = 4
       \<and> itemsize IMAGEJ_ROI_HEADER = sum_list (map (\<lambda>(k, ty). fsize ty) IMAGEJ_ROI_HEADER)
       \<and> itemsize IMAGEJ_ROI_HEADER = 64
       \<and> getattr IMAGEJ_ROI_HEADER (take 64 bs) ''_iout'' = Inr (PyBytes (map byte_of_char ''Iout''))
       \<and> getattr IMAGEJ_ROI_HEADER (take 64 bs) ''version'' = Inr (PyInt 226)
       \<and> IJM_ROI_VERSION = 226"
proof -
  have layout: "length IMAGEJ_ROI_HEADER = 24" "IMAGEJ_ROI_HEADER ! 0 = (''_iout'', A1x4)"
    by (simp_all add: IMAGEJ_ROI_HEADER_def)
  have v: "be_dec_s (be_enc 2 226) = 226"
    by (rule be_dec_s_enc) simp_all
  have "getattr IMAGEJ_ROI_HEADER (take 64 bs) ''_iout'' = Inr (PyBytes (map byte_of_char ''Iout''))
      \<and> getattr IMAGEJ_ROI_HEADER (take 64 bs) ''version'' = Inr (PyInt 226)"
    using assms v unfolding create_roi_unfold
    by (auto simp: getattr_def then_do_def length_be_enc roi_header_image_def IJM_ROI_VERSION_def
             split: if_splits sum.splits)
  then show ?thesis
    using layout itemsize_header itemsize_header [unfolded itemsize_def]
    by (simp add: IJM_ROI_VERSION_def)
qed


text \<open>The scenario of the specification is such a record.\<close>

theorem primary_header_layout_witness:
  "imagej_create_roi Int64 [(10, 20), (15, 20), (15, 25), (10, 25)] (Some (ascii ''cellA'')) 0 0 2 None 0
     = Inr [73, 111, 117, 116, 0, 226, 7, 0, 0, 20, 0, 10, 0, 0, 0, 0, 0, 4, 0, 0, 0,
  0, 0, 0, 0, 0, 0, 0, 0, 0, 0, 0, 0, 0, 0, 0, 0, 0, 0, 0, 0, 0, 0, 0, 0, 0,
  0, 0, 0, 0, 0, 40, 0, 0, 0, 0, 0, 0, 0, 3, 0, 0, 0, 80, 0, 0, 0, 5, 0, 5,
  0, 0, 0, 0, 0, 0, 0, 5, 0, 5, 0, 0, 0, 0, 0, 0, 0, 0, 0, 0, 0, 0, 0, 0, 0,
  0, 0, 0, 0, 132, 0, 0, 0, 5, 0, 0, 0, 0, 0, 0, 0, 0, 0, 0, 0, 0, 0, 0, 0,
  0, 0, 0, 0, 0, 0, 0, 0, 0, 0, 0, 0, 0, 0, 99, 0, 101, 0, 108, 0, 108, 0,
  65]
   \<and> itemsize IMAGEJ_ROI_HEADER = 64
   \<and> getattr IMAGEJ_ROI_HEADER [73, 111, 117, 116, 0, 226, 7, 0, 0, 20, 0, 10, 0, 0, 0, 0, 0, 4, 0, 0, 0,
  0, 0, 0, 0, 0, 0, 0, 0, 0, 0, 0, 0, 0, 0, 0, 0, 0, 0, 0, 0, 0, 0, 0, 0, 0,
  0, 0, 0, 0, 0, 40, 0, 0, 0, 0, 0, 0, 0, 3, 0, 0, 0, 80] ''version'' = Inr (PyInt 226)"
  using primary_header_layout [OF scenario_encoded] scenario_encoded by simp


text \<open>The size that claim C7 states, 62 bytes, is not the size of the layout.\<close>

theorem primary_header_size_counterexample:
  "itemsize IMAGEJ_ROI_HEADER \<noteq> 62"
  by (simp add: itemsize_header)

section \<open>Records returned by the encoder\<close>

lemma create_roi_Inr:
  assumes "imagej_create_roi dt points name c z t index rnd = Inr bs"
  shows "points \<noteq> [] \<and> (\<exists>name_bytes.
           utf16be_encode (synth_name name t index rnd) = Inr name_bytes
         \<and> bs = roi_header_image (min_list (map snd points)) (min_list (map fst points))
                  (int (length points)) t
                @ encode_points (map (\<lambda>(x, y). (np_wrap dt (x - min_list (map fst points)), np_wrap dt (y - min_list (map snd points)))) points)
                @ roi_header2_image (be_dec_s (be_enc 4 (64 + 4 * int (length points))) + 52)
                    (int (length (synth_name name t index rnd)))
                @ name_bytes)"
  using assms unfolding create_roi_unfold
  by (auto simp: then_do_def split: if_splits sum.splits)

lemma header_image_fields:
  "take 4 (roi_header_image tp lf n t) = map byte_of_char ''Iout''"
  "take 2 (drop 4 (roi_header_image tp lf n t)) = be_enc 2 226"
  "take (Suc 0) (drop 6 (roi_header_image tp lf n t)) = be_enc 1 7"
  "take 2 (drop 8 (roi_header_image tp lf n t)) = be_enc 2 tp"
  "take 2 (drop 10 (roi_header_image tp lf n t)) = be_enc 2 lf"
  "take 2 (drop 16 (roi_header_image tp lf n t)) = be_enc 2 n"
  "take 2 (drop 50 (roi_header_image tp lf n t)) = be_enc 2 40"
  "take 4 (drop 56 (roi_header_image tp lf n t)) = be_enc 4 (t + 1)"
  "take 4 (drop 60 (roi_header_image tp lf n t)) = be_enc 4 (64 + 4 * n)"
  by (simp_all add: roi_header_image_def length_be_enc IJM_ROI_VERSION_def CONST_IJ_FREEHAND_def)

lemma header2_image_fields:
  "take 4 (drop 4 (roi_header2_image name_offset name_length)) = replicate 4 0"
  "take 4 (drop 8 (roi_header2_image name_offset name_length)) = replicate 4 0"
  "take 4 (drop 12 (roi_header2_image name_offset name_length)) = replicate 4 0"
  "take 4 (drop 16 (roi_header2_image name_offset name_length)) = be_enc 4 name_offset"
  "take 4 (drop 20 (roi_header2_image name_offset name_length)) = be_enc 4 name_length"
  by (simp_all add: roi_header2_image_def length_be_enc)


section \<open>The encoder does not depend on the channel and the slice\<close>

text \<open>
  Claim C10: two calls of the encoder that differ only in \<open>c\<close> and \<open>z\<close> return the same
  result, and in every record that the encoder returns the fields \<open>c\<close>, \<open>z\<close> and \<open>t\<close>
  of the secondary header, which starts \<open>64 + 4 * n\<close> bytes into the record, are zero.
\<close>

theorem encoder_ignores_c_z:
  "imagej_create_roi dt points name c z t index rnd = imagej_create_roi dt points name c' z' t index rnd
   \<and> (imagej_create_roi dt points name c z t index rnd = Inr bs \<longrightarrow>
        getattr IMAGEJ_ROI_HEADER2 (take 52 (drop (64 + 4 * length points) bs)) ''c'' = Inr (PyInt 0)
      \<and> getattr IMAGEJ_ROI_HEADER2 (take 52 (drop (64 + 4 * length points) bs)) ''z'' = Inr (PyInt 0)
      \<and> getattr IMAGEJ_ROI_HEADER2 (take 52 (drop (64 + 4 * length points) bs)) ''t'' = Inr (PyInt 0))"
proof -
  have same: "imagej_create_roi dt points name c z t index rnd = imagej_create_roi dt points name c' z' t index rnd"
    by (simp only: create_roi_unfold)
  have "getattr IMAGEJ_ROI_HEADER2 (take 52 (drop (64 + 4 * length points) bs)) ''c'' = Inr (PyInt 0)
      \<and> getattr IMAGEJ_ROI_HEADER2 (take 52 (drop (64 + 4 * length points) bs)) ''z'' = Inr (PyInt 0)
      \<and> getattr IMAGEJ_ROI_HEADER2 (take 52 (drop (64 + 4 * length points) bs)) ''t'' = Inr (PyInt 0)"
    if "imagej_create_roi dt points name c z t index rnd = Inr bs"
  proof -
    from create_roi_Inr [OF that] obtain nb h2 where
      bs: "bs = roi_header_image (min_list (map snd points)) (min_list (map fst points)) (int (length points)) t
                @ encode_points (map (\<lambda>(x, y). (np_wrap dt (x - min_list (map fst points)), np_wrap dt (y - min_list (map snd points)))) points)
                @ h2 @ nb"
      and h2: "h2 = roi_header2_image (be_dec_s (be_enc 4 (64 + 4 * int (length points))) + 52)
                    (int (length (synth_name name t index rnd)))"
      by blast
    have "take 52 (drop (64 + 4 * length points) bs) = h2"
      by (simp add: bs h2)
    then show ?thesis
      by (simp add: getattr_def h2 header2_image_fields be_dec_s_zeros4)
  qed
  with same show ?thesis by blast
qed


text \<open>The scenario of the specification, encoded with two different channels and slices.\<close>

theorem encoder_ignores_c_z_witness:
  "imagej_create_roi Int64 [(10, 20), (15, 20), (15, 25), (10, 25)] (Some (ascii ''cellA'')) 0 0 2 None 0
     = imagej_create_roi Int64 [(10, 20), (15, 20), (15, 25), (10, 25)] (Some (ascii ''cellA'')) 3 5 2 None 0
   \<and> imagej_create_roi Int64 [(10, 20), (15, 20), (15, 25), (10, 25)] (Some (ascii ''cellA'')) 0 0 2 None 0
     = Inr [73, 111, 117, 116, 0, 226, 7, 0, 0, 20, 0, 10, 0, 0, 0, 0, 0, 4, 0, 0, 0,
  0, 0, 0, 0, 0, 0, 0, 0, 0, 0, 0, 0, 0, 0, 0, 0, 0, 0, 0, 0, 0, 0, 0, 0, 0,
  0, 0, 0, 0, 0, 40, 0, 0, 0, 0, 0, 0, 0, 3, 0, 0, 0, 80, 0, 0, 0, 5, 0, 5,
  0, 0, 0, 0, 0, 0, 0, 5, 0, 5, 0, 0, 0, 0, 0, 0, 0, 0, 0, 0, 0, 0, 0, 0, 0,
  0, 0, 0, 0, 132, 0, 0, 0, 5, 0, 0, 0, 0, 0, 0, 0, 0, 0, 0, 0, 0, 0, 0, 0,
  0, 0, 0, 0, 0, 0, 0, 0, 0, 0, 0, 0, 0, 0, 99, 0, 101, 0, 108, 0, 108, 0,
  65]
   \<and> getattr IMAGEJ_ROI_HEADER2 [0, 0, 0, 0, 0, 0, 0, 0, 0, 0, 0, 0, 0, 0, 0,
  0, 0, 0, 0, 132, 0, 0, 0, 5, 0, 0, 0, 0, 0, 0, 0, 0, 0, 0, 0, 0, 0, 0, 0,
  0, 0, 0, 0, 0, 0, 0, 0, 0, 0, 0, 0, 0] ''c'' = Inr (PyInt 0)"
  using encoder_ignores_c_z [of Int64 "[(10, 20), (15, 20), (15, 25), (10, 25)]" "Some (ascii ''cellA'')" 0 0 2 None 0 3 5, THEN conjunct2, THEN mp, OF scenario_encoded]
    encoder_ignores_c_z [of Int64 "[(10, 20), (15, 20), (15, 25), (10, 25)]" "Some (ascii ''cellA'')" 0 0 2 None 0 3 5, THEN conjunct1]
    scenario_encoded
  by simp

section \<open>Offsets recorded by the encoder\<close>

text \<open>
  Claim C2, as the code has it: in every record that the encoder returns, the field
  \<open>header2_offset\<close> (bytes 60 to 63) is written from the primary header size plus the
  length of the encoded coordinates, which is four bytes per point, and the field
  \<open>name_offset\<close> of the secondary header is written from the value read back from
  \<open>header2_offset\<close> plus the secondary header size.  Both are four-byte signed fields,
  which keep the low 32 bits of what is written: when \<open>116 + 4 * n < 2 ^ 31\<close>, that is
  up to \<open>2 ^ 29 - 30\<close> points, reading the fields gives \<open>64 + 4 * n\<close> and
  \<open>64 + 4 * n + 52\<close>.
\<close>

theorem offset_invariants:
  assumes "imagej_create_roi dt points name c z t index rnd = Inr bs"
  shows "take 4 (drop 60 bs) = be_enc 4 (int (itemsize IMAGEJ_ROI_HEADER) + 4 * int (length points))
       \<and> int (length (encode_points (map (\<lambda>(x, y). (np_wrap dt (x - min_list (map fst points)), np_wrap dt (y - min_list (map snd points)))) points)))
           = 4 * int (length points)
       \<and> (\<exists>h2off. getint IMAGEJ_ROI_HEADER (take 64 bs) ''header2_offset'' = Inr h2off
            \<and> take 4 (drop 16 (take 52 (drop (64 + 4 * length points) bs)))
                = be_enc 4 (h2off + int (itemsize IMAGEJ_ROI_HEADER2)))
       \<and> (116 + 4 * int (length points) < 2 ^ 31 \<longrightarrow>
            getint IMAGEJ_ROI_HEADER (take 64 bs) ''header2_offset''
              = Inr (int (itemsize IMAGEJ_ROI_HEADER) + 4 * int (length points))
          \<and> getint IMAGEJ_ROI_HEADER2 (take 52 (drop (64 + 4 * length points) bs)) ''name_offset''
              = Inr (int (itemsize IMAGEJ_ROI_HEADER) + 4 * int (length points) + int (itemsize IMAGEJ_ROI_HEADER2)))"
proof -
  let ?n = "int (length points)"
  let ?h2 = "be_dec_s (be_enc 4 (64 + 4 * ?n))"
  from create_roi_Inr [OF assms] obtain nb h1 h2 where
    bs: "bs = h1 @ encode_points (map (\<lambda>(x, y). (np_wrap dt (x - min_list (map fst points)), np_wrap dt (y - min_list (map snd points)))) points)
              @ h2 @ nb"
    and h1: "h1 = roi_header_image (min_list (map snd points)) (min_list (map fst points)) ?n t"
    and h2: "h2 = roi_header2_image (?h2 + 52) (int (length (synth_name name t index rnd)))"
    by blast
  have t1: "take 64 bs = h1" and t2: "take 52 (drop (64 + 4 * length points) bs) = h2"
    and t3: "take 4 (drop 60 bs) = take 4 (drop 60 h1)"
    by (simp_all add: bs h1 h2)
  have g1: "getint IMAGEJ_ROI_HEADER (take 64 bs) ''header2_offset'' = Inr ?h2"
    by (simp add: t1 h1 getint_def getattr_def then_do_def header_image_fields)
  have g2: "getint IMAGEJ_ROI_HEADER2 (take 52 (drop (64 + 4 * length points) bs)) ''name_offset''
             = Inr (be_dec_s (be_enc 4 (?h2 + 52)))"
    by (simp add: t2 h2 getint_def getattr_def then_do_def header2_image_fields)
  have fit: "?h2 = 64 + 4 * ?n \<and> be_dec_s (be_enc 4 (64 + 4 * ?n + 52)) = 64 + 4 * ?n + 52"
    if "116 + 4 * ?n < 2 ^ 31"
    using that by (auto intro!: be_dec_s_enc)
  have a: "take 4 (drop 60 bs) = be_enc 4 (int (itemsize IMAGEJ_ROI_HEADER) + 4 * ?n)"
    by (simp add: t3 h1 header_image_fields itemsize_header)
  have b: "take 4 (drop 16 (take 52 (drop (64 + 4 * length points) bs)))
             = be_enc 4 (?h2 + int (itemsize IMAGEJ_ROI_HEADER2))"
    by (simp add: t2 h2 header2_image_fields itemsize_header2)
  show ?thesis
    using a b g1 g2 fit by (auto simp: itemsize_header itemsize_header2)
qed


text \<open>In the scenario of the specification the offsets are 80 and 132.\<close>

theorem offset_invariants_witness:
  "imagej_create_roi Int64 [(10, 20), (15, 20), (15, 25), (10, 25)] (Some (ascii ''cellA'')) 0 0 2 None 0
     = Inr [73, 111, 117, 116, 0, 226, 7, 0, 0, 20, 0, 10, 0, 0, 0, 0, 0, 4, 0, 0, 0,
  0, 0, 0, 0, 0, 0, 0, 0, 0, 0, 0, 0, 0, 0, 0, 0, 0, 0, 0, 0, 0, 0, 0, 0, 0,
  0, 0, 0, 0, 0, 40, 0, 0, 0, 0, 0, 0, 0, 3, 0, 0, 0, 80, 0, 0, 0, 5, 0, 5,
  0, 0, 0, 0, 0, 0, 0, 5, 0, 5, 0, 0, 0, 0, 0, 0, 0, 0, 0, 0, 0, 0, 0, 0, 0,
  0, 0, 0, 0, 132, 0, 0, 0, 5, 0, 0, 0, 0, 0, 0, 0, 0, 0, 0, 0, 0, 0, 0, 0,
  0, 0, 0, 0, 0, 0, 0, 0, 0, 0, 0, 0, 0, 0, 99, 0, 101, 0, 108, 0, 108, 0,
  65]
   \<and> (116 :: int) + 4 * 4 < 2 ^ 31
   \<and> getint IMAGEJ_ROI_HEADER [73, 111, 117, 116, 0, 226, 7, 0, 0, 20, 0, 10, 0, 0, 0, 0, 0, 4, 0, 0, 0,
  0, 0, 0, 0, 0, 0, 0, 0, 0, 0, 0, 0, 0, 0, 0, 0, 0, 0, 0, 0, 0, 0, 0, 0, 0,
  0, 0, 0, 0, 0, 40, 0, 0, 0, 0, 0, 0, 0, 3, 0, 0, 0, 80] ''header2_offset'' = Inr 80
   \<and> getint IMAGEJ_ROI_HEADER2 [0, 0, 0, 0, 0, 0, 0, 0, 0, 0, 0, 0, 0, 0, 0,
  0, 0, 0, 0, 132, 0, 0, 0, 5, 0, 0, 0, 0, 0, 0, 0, 0, 0, 0, 0, 0, 0, 0, 0,
  0, 0, 0, 0, 0, 0, 0, 0, 0, 0, 0, 0, 0] ''name_offset'' = Inr 132"
  using offset_invariants [OF scenario_encoded] scenario_encoded
  by (simp add: itemsize_header itemsize_header2 be_enc_4)

section \<open>Assembly of the metadata block\<close>

lemma fields_meta [simp]:
  "field_at IMAGEJ_META_HEADER ''magic'' = Some (0, I4)"
  "field_at IMAGEJ_META_HEADER ''type'' = Some (4, I4)"
  "field_at IMAGEJ_META_HEADER ''count'' = Some (8, I4)"
  by (simp_all add: IMAGEJ_META_HEADER_def)

lemma prepare_metadata_unfold:
  "imagej_prepare_metadata overlays =
     (if 2 ^ 63 \<le> int (length overlays) then Inl OverflowError
      else Inr ((be_enc 4 CONSTANT_MAGIC_NUMBER @ be_enc 4 CONSTANT_OVERLAY @ be_enc 4 (int (length overlays)))
                  @ concat overlays,
                12 # map length overlays))"
  by (simp add: imagej_prepare_metadata_def then_do_def new_meta_header itemsize_meta setattr_int_def
        length_be_enc CONSTANT_MAGIC_NUMBER_def CONSTANT_OVERLAY_def Let_def)


text \<open>
  Claim C4: for every list of encoded records (a Python list has fewer than \<open>2 ^ 63\<close>
  items), the assembler returns the 12-byte block header, whose fields are written from
  the magic number \<^verbatim>\<open>0x494A494A\<close>, the type \<^verbatim>\<open>0x6F766572\<close> and the number of records,
  followed by the records in their order, together with the list of the header size and
  of the length of each record, which has one entry more than there are records.  Read
  back, the header gives the magic number, the type and, for fewer than \<open>2 ^ 31\<close>
  records, the count.
\<close>

theorem metadata_block_assembly:
  assumes "int (length overlays) < 2 ^ 63"
  shows "\<exists>mh. imagej_prepare_metadata overlays = Inr (mh @ concat overlays, length mh # map length overlays)
          \<and> length mh = 12 \<and> length mh = itemsize IMAGEJ_META_HEADER
          \<and> mh = be_enc 4 0x494A494A @ be_enc 4 0x6F766572 @ be_enc 4 (int (length overlays))
          \<and> getattr IMAGEJ_META_HEADER mh ''magic'' = Inr (PyInt 0x494A494A)
          \<and> getattr IMAGEJ_META_HEADER mh ''type'' = Inr (PyInt 0x6F766572)
          \<and> (int (length overlays) < 2 ^ 31 \<longrightarrow>
                getattr IMAGEJ_META_HEADER mh ''count'' = Inr (PyInt (int (length overlays))))
          \<and> length (length mh # map length overlays) = length overlays + 1"
proof -
  let ?mh = "be_enc 4 0x494A494A @ be_enc 4 0x6F766572 @ be_enc 4 (int (length overlays))"
  have r: "imagej_prepare_metadata overlays = Inr (?mh @ concat overlays, length ?mh # map length overlays)"
    using assms by (simp add: prepare_metadata_unfold length_be_enc CONSTANT_MAGIC_NUMBER_def CONSTANT_OVERLAY_def)
  have m: "be_dec_s (be_enc 4 0x494A494A) = 0x494A494A" "be_dec_s (be_enc 4 0x6F766572) = 0x6F766572"
    by (rule be_dec_s_enc; simp)+
  have c: "be_dec_s (be_enc 4 (int (length overlays))) = int (length overlays)"
    if "int (length overlays) < 2 ^ 31"
    using that by (intro be_dec_s_enc) simp_all
  have "getattr IMAGEJ_META_HEADER ?mh ''magic'' = Inr (PyInt 0x494A494A)"
       "getattr IMAGEJ_META_HEADER ?mh ''type'' = Inr (PyInt 0x6F766572)"
       "int (length overlays) < 2 ^ 31 \<Longrightarrow>
          getattr IMAGEJ_META_HEADER ?mh ''count'' = Inr (PyInt (int (length overlays)))"
    using m c by (simp_all add: getattr_def length_be_enc)
  with r show ?thesis
    by (intro exI [of _ ?mh]) (simp add: length_be_enc itemsize_meta)
qed


text \<open>Two records, of two bytes and of one byte.\<close>

theorem metadata_block_assembly_witness:
  "int (length [[1, 2], [3 :: byte]]) < 2 ^ 63
   \<and> imagej_prepare_metadata [[1, 2], [3]]
       = Inr ([73, 74, 73, 74, 111, 118, 101, 114, 0, 0, 0, 2, 1, 2, 3], [12, 2, 1])"
  using metadata_block_assembly [of "[[1, 2], [3]]"]
  by (simp add: be_enc_4)

section \<open>The decoder, step by step\<close>

lemma insert_fields_header:
  "insert_fields IMAGEJ_ROI_HEADER header (map fst IMAGEJ_ROI_HEADER) [(''name'', a), (''coordinates'', b)]
     = Inr ([(''name'', a), (''coordinates'', b)] @ public_items IMAGEJ_ROI_HEADER header)"
  by (simp add: IMAGEJ_ROI_HEADER_def getattr_def then_do_def)

lemma insert_fields_header2:
  "insert_fields IMAGEJ_ROI_HEADER2 header2 (map fst IMAGEJ_ROI_HEADER2)
       ([(''name'', a), (''coordinates'', b)] @ public_items IMAGEJ_ROI_HEADER header)
     = Inr ([(''name'', a), (''coordinates'', b)] @ public_items IMAGEJ_ROI_HEADER header
            @ public_items IMAGEJ_ROI_HEADER2 header2)"
  by (simp add: IMAGEJ_ROI_HEADER_def IMAGEJ_ROI_HEADER2_def getattr_def then_do_def)

lemma fields_header_more [simp]:
  "field_at IMAGEJ_ROI_HEADER ''roi_type'' = Some (6, I1)"
  by (simp_all add: IMAGEJ_ROI_HEADER_def)

lemma then_do_simps [simp]:
  "then_do (Inl e) f = Inl e"
  "then_do (Inr x) f = f x"
  by (simp_all add: then_do_def)

lemma then_do_if: "then_do (if b then m else m') f = (if b then then_do m f else then_do m' f)"
  by simp

lemma then_do_assoc: "then_do (then_do m f) g = then_do m (\<lambda>x. then_do (f x) g)"
  by (cases m) simp_all

lemma parse_overlay_unfold:
  "imagej_parse_overlay mem data =
     then_do (new_record IMAGEJ_ROI_HEADER (Some (data, mem)) 0) (\<lambda>header.
     then_do (new_record IMAGEJ_ROI_HEADER2 (Some (data, mem)) (be_dec_s (take 4 (drop 60 header)))) (\<lambda>header2.
     then_do (if 0 < be_dec_s (take 4 (drop 16 header2))
              then utf16be_decode (py_slice data (be_dec_s (take 4 (drop 16 header2)))
                     (be_dec_s (take 4 (drop 16 header2)) + be_dec_s (take 4 (drop 20 header2)) * 2))
              else Inr []) (\<lambda>name.
     then_do (if be_dec_s (take 1 (drop 6 header)) \<in> set IMAGEJ_SUPPORTED_OVERLAYS
              then then_do (decode_coordinates (be_dec_s (take 2 (drop 16 header)))
                              (py_slice data 64 (64 + 4 * be_dec_s (take 2 (drop 16 header)))))
                     (\<lambda>arr. Inr (PyArray arr))
              else Inr PyNone) (\<lambda>coords.
     Inr ([(''name'', PyStr name), (''coordinates'', coords)]
          @ public_items IMAGEJ_ROI_HEADER header @ public_items IMAGEJ_ROI_HEADER2 header2)))))"
proof -
  have ins: "then_do (insert_fields IMAGEJ_ROI_HEADER header (map fst IMAGEJ_ROI_HEADER) [(''name'', a), (''coordinates'', b)])
               (insert_fields IMAGEJ_ROI_HEADER2 header2 (map fst IMAGEJ_ROI_HEADER2))
        = Inr ([(''name'', a), (''coordinates'', b)] @ public_items IMAGEJ_ROI_HEADER header
            @ public_items IMAGEJ_ROI_HEADER2 header2)" for header header2 a b
    by (simp only: insert_fields_header insert_fields_header2 then_do_simps)
  show ?thesis
    unfolding imagej_parse_overlay_def getint_def getattr_def fields_header fields_header2 fields_header_more
      option.case prod.case then_do_simps decode_field.simps fsize.simps pyval.case Let_def itemsize_header
    apply (rule arg_cong2 [where f = then_do, OF refl])
    apply (rule ext)
    apply (rule arg_cong2 [where f = then_do, OF refl])
    apply (rule ext)
    apply (simp add: ins then_do_if then_do_assoc AList.update.simps cong: if_cong)
    done
qed

lemma py_slice_middle:
  "py_slice (a @ b @ c) (int (length a)) (int (length a) + int (length b)) = b"
  by (simp add: py_slice_def Let_def min_def)

lemma pairs_of_concat:
  "pairs_of (concat (map (\<lambda>p. be_enc 2 (f p)) pts)) = map (\<lambda>p. be_enc 2 (f p)) pts"
  by (induction pts) (simp_all add: be_enc_2)

lemma length_concat_be_enc2: "length (concat (map (\<lambda>p. be_enc 2 (f p)) pts)) = 2 * length pts"
  by (induction pts) (simp_all add: length_be_enc)

lemma decode_coordinates_encode_points:
  "decode_coordinates (int (length pts)) (encode_points pts)
     = Inr (map (\<lambda>p. (be_dec_s (be_enc 2 (fst p)), be_dec_s (be_enc 2 (snd p)))) pts)"
proof -
  have "zip (map be_dec_s (map (\<lambda>p. be_enc 2 (fst p)) pts)) (map be_dec_s (map (\<lambda>p. be_enc 2 (snd p)) pts))
          = map (\<lambda>p. (be_dec_s (be_enc 2 (fst p)), be_dec_s (be_enc 2 (snd p)))) pts"
    by (induction pts) simp_all
  then show ?thesis
    by (simp add: decode_coordinates_def encode_points_def length_concat_be_enc2 pairs_of_concat)
qed

lemma utf16_bmp_roundtrip:
  assumes "\<forall>cp \<in> set s. cp < 0xD800 \<or> (0xE000 \<le> cp \<and> cp < 0x10000)"
  shows "\<exists>nb. utf16be_encode s = Inr nb \<and> length nb = 2 * length s \<and> utf16be_decode nb = Inr s"
  using assms
proof (induction s)
  case Nil
  then show ?case by simp
next
  case (Cons cp s)
  then obtain nb where nb: "utf16be_encode s = Inr nb" "length nb = 2 * length s" "utf16be_decode nb = Inr s"
    by auto
  from Cons.prems have cp: "cp < 0xD800 \<or> (0xE000 \<le> cp \<and> cp < 0x10000)"
    by simp
  then have r: "int cp < 65536" "0 \<le> int cp" by auto
  have u: "be_dec_u (be_enc 2 (int cp)) = int cp"
    using r by (simp add: be_dec_u_enc)
  have "utf16be_encode (cp # s) = Inr (be_enc 2 (int cp) @ nb)"
    using cp nb(1) by auto
  moreover have "utf16be_decode (be_enc 2 (int cp) @ nb) = Inr (cp # s)"
  proof -
    obtain a b where ab: "be_enc 2 (int cp) = [a, b]"
      by (simp add: be_enc_2)
    with u have "nat (be_dec_u [a, b]) = cp" by simp
    then show ?thesis
      using cp nb(3) by (auto simp: ab Let_def)
  qed
  ultimately show ?case
    using nb(2) by (simp add: length_be_enc)
qed

lemma supported_freehand: "be_dec_s (be_enc 1 7) \<in> set IMAGEJ_SUPPORTED_OVERLAYS"
proof -
  have "be_dec_s (be_enc 1 7) = 7"
    by (rule be_dec_s_enc) simp_all
  then show ?thesis
    by (simp add: IMAGEJ_SUPPORTED_OVERLAYS_def CONST_IJ_FREEHAND_def)
qed

lemma parse_encoded:
  assumes bs: "bs = h1 @ encode_points pts @ h2 @ nb"
    and h1: "h1 = roi_header_image tp lf (int (length pts)) t"
    and h2: "h2 = roi_header2_image (be_dec_s (be_enc 4 (64 + 4 * int (length pts))) + 52) (int (length s))"
    and n: "length pts \<le> 32767"
    and s: "int (length s) < 2 ^ 31"
    and nb: "utf16be_encode s = Inr nb" "length nb = 2 * length s" "utf16be_decode nb = Inr s"
  shows "imagej_parse_overlay mem bs =
           Inr ([(''name'', PyStr s),
                 (''coordinates'', PyArray (map (\<lambda>p. (be_dec_s (be_enc 2 (fst p)), be_dec_s (be_enc 2 (snd p)))) pts))]
                @ public_items IMAGEJ_ROI_HEADER h1 @ public_items IMAGEJ_ROI_HEADER2 h2)"
proof -
  let ?n = "int (length pts)"
  have l1: "length h1 = 64" and l2: "length h2 = 52"
    by (simp_all add: h1 h2)
  have off: "be_dec_s (be_enc 4 (64 + 4 * ?n)) = 64 + 4 * ?n"
    using n by (intro be_dec_s_enc) simp_all
  have noff: "be_dec_s (be_enc 4 (64 + 4 * ?n + 52)) = 116 + 4 * ?n"
    using n be_dec_s_enc [of 4 "64 + 4 * ?n + 52"] by simp
  have nlen: "be_dec_s (be_enc 4 (int (length s))) = int (length s)"
    using s by (intro be_dec_s_enc) simp_all
  have ncoord: "be_dec_s (be_enc 2 ?n) = ?n"
    using n by (intro be_dec_s_enc) simp_all
  have r1: "new_record IMAGEJ_ROI_HEADER (Some (bs, mem)) 0 = Inr h1"
    by (simp add: new_record_def itemsize_header bs l1)
  have f1: "be_dec_s (take 4 (drop 60 h1)) = 64 + 4 * ?n"
    by (simp add: h1 header_image_fields off)
  have nat_off: "nat (64 + 4 * ?n) = 64 + 4 * length pts"
    by simp
  have r2: "new_record IMAGEJ_ROI_HEADER2 (Some (bs, mem)) (64 + 4 * ?n) = Inr h2"
    by (simp add: new_record_def itemsize_header2 bs l1 l2 nat_off)
  have f2: "be_dec_s (take 4 (drop 16 h2)) = 116 + 4 * ?n"
       "be_dec_s (take 4 (drop 20 h2)) = int (length s)"
    using noff nlen by (simp_all add: h2 header2_image_fields off)
  have f3: "be_dec_s (take 1 (drop 6 h1)) \<in> set IMAGEJ_SUPPORTED_OVERLAYS"
       "be_dec_s (take 2 (drop 16 h1)) = ?n"
    using supported_freehand ncoord by (simp_all add: h1 header_image_fields)
  have sl1: "py_slice bs (116 + 4 * ?n) (116 + 4 * ?n + int (length s) * 2) = nb"
  proof -
    have "py_slice ((h1 @ encode_points pts @ h2) @ nb @ [])
            (int (length (h1 @ encode_points pts @ h2)))
            (int (length (h1 @ encode_points pts @ h2)) + int (length nb)) = nb"
      by (rule py_slice_middle)
    then show ?thesis
      by (simp add: bs l1 l2 nb(2) algebra_simps)
  qed
  have sl2: "py_slice bs 64 (64 + 4 * ?n) = encode_points pts"
  proof -
    have "py_slice (h1 @ encode_points pts @ (h2 @ nb)) (int (length h1))
            (int (length h1) + int (length (encode_points pts))) = encode_points pts"
      by (rule py_slice_middle)
    then show ?thesis
      by (simp add: bs l1)
  qed
  show ?thesis
    unfolding parse_overlay_unfold r1 then_do_simps f1 r2 f2 sl1 nb(3) sl2
    using f3 by (simp add: sl2 decode_coordinates_encode_points)
qed

lemma be_dec_u_zeros [simp]: "be_dec_u (replicate k 0) = 0"
  by (induction k) (simp_all add: be_dec_u_def)

lemma be_dec_s_zeros [simp]: "be_dec_s (replicate k 0) = 0"
  by (simp add: be_dec_s_def Let_def)

lemma be_dec_zero1 [simp]: "be_dec_u [0] = 0" "be_dec_s [0] = 0"
  using be_dec_u_zeros [of "Suc 0"] be_dec_s_zeros [of "Suc 0"] by simp_all

lemma public_items_header_image:
  "public_items IMAGEJ_ROI_HEADER (roi_header_image tp lf n t) =
     [(''version'', PyInt (be_dec_s (be_enc 2 226))),
      (''roi_type'', PyInt (be_dec_s (be_enc 1 7))),
      (''top'', PyInt (be_dec_s (be_enc 2 tp))),
      (''left'', PyInt (be_dec_s (be_enc 2 lf))),
      (''bottom'', PyInt 0),
      (''right'', PyInt 0),
      (''n_coordinates'', PyInt (be_dec_s (be_enc 2 n))),
      (''x1'', PyInt 0),
      (''y1'', PyInt 0),
      (''x2'', PyInt 0),
      (''y2'', PyInt 0),
      (''stroke_width'', PyInt 0),
      (''shape_roi_size'', PyInt 0),
      (''stroke_color'', PyInt 0),
      (''fill_color'', PyInt 0),
      (''subtype'', PyInt 0),
      (''options'', PyInt (be_dec_s (be_enc 2 40))),
      (''arrow_style_or_aspect_ratio'', PyInt 0),
      (''arrow_head_size'', PyInt 0),
      (''rounded_rect_arc_size'', PyInt 0),
      (''position'', PyInt (be_dec_s (be_enc 4 (t + 1)))),
      (''header2_offset'', PyInt (be_dec_s (be_enc 4 (64 + 4 * n))))]"
  by (simp add: IMAGEJ_ROI_HEADER_def roi_header_image_def length_be_enc IJM_ROI_VERSION_def
        CONST_IJ_FREEHAND_def)

lemma public_items_header2_image:
  "public_items IMAGEJ_ROI_HEADER2 (roi_header2_image noff nlen) =
     [(''c'', PyInt 0),
      (''z'', PyInt 0),
      (''t'', PyInt 0),
      (''name_offset'', PyInt (be_dec_s (be_enc 4 noff))),
      (''name_length'', PyInt (be_dec_s (be_enc 4 nlen))),
      (''overlay_label_color'', PyInt 0),
      (''overlay_font_size'', PyInt 0),
      (''available_byte1'', PyInt 0),
      (''image_opacity'', PyInt 0),
      (''image_size'', PyInt 0),
      (''float_stroke_width'', PyFloat32 0),
      (''roi_props_offset'', PyInt 0),
      (''roi_props_length'', PyInt 0),
      (''counters_offset'', PyInt 0)]"
  by (simp add: IMAGEJ_ROI_HEADER2_def roi_header2_image_def length_be_enc)

section \<open>Arithmetic in the element type of the array\<close>

lemma np_wrap_id: "np_value dt v \<Longrightarrow> np_wrap dt v = v"
  by (cases dt) (simp_all add: np_value_def np_wrap_def np_min_def np_max_def)

lemma min_list_mem: "xs \<noteq> [] \<Longrightarrow> min_list xs \<in> set (xs :: int list)"
  by (simp add: min_list_Min)

lemma min_list_least: "x \<in> set xs \<Longrightarrow> min_list xs \<le> (x :: int)"
  by (cases "xs = []") (simp_all add: min_list_Min)

lemma wrap_translated:
  assumes arr: "\<forall>v \<in> set vs. np_value dt v" and v: "v \<in> set vs"
    and s16: "v - min_list vs \<le> 32767" and s8: "dt = Int8 \<Longrightarrow> v - min_list vs \<le> 127"
  shows "np_wrap dt (v - min_list vs) = v - min_list vs \<and> 0 \<le> v - min_list vs"
proof -
  have ne: "vs \<noteq> []" using v by auto
  have m: "np_value dt (min_list vs)" using arr min_list_mem [OF ne] by blast
  have le: "min_list vs \<le> v" using v by (rule min_list_least)
  have "np_value dt v" using arr v by blast
  with m le s16 s8 have "np_value dt (v - min_list vs)"
    by (cases dt) (simp_all add: np_value_def np_min_def np_max_def)
  then show ?thesis using le by (simp add: np_wrap_id)
qed

lemma decode_of_encode:
  assumes enc: "imagej_create_roi dt points name c z t index rnd = Inr bs"
    and n: "length points \<le> 32767"
    and bmp: "\<forall>cp \<in> set (synth_name name t index rnd). cp < 0xD800 \<or> (0xE000 \<le> cp \<and> cp < 0x10000)"
    and len: "int (length (synth_name name t index rnd)) < 2 ^ 31"
  shows "imagej_parse_overlay mem bs =
           Inr ([(''name'', PyStr (synth_name name t index rnd)),
                 (''coordinates'', PyArray (map (\<lambda>(x, y).
                     (be_dec_s (be_enc 2 (np_wrap dt (x - min_list (map fst points)))),
                      be_dec_s (be_enc 2 (np_wrap dt (y - min_list (map snd points)))))) points))]
                @ public_items IMAGEJ_ROI_HEADER
                    (roi_header_image (min_list (map snd points)) (min_list (map fst points))
                       (int (length points)) t)
                @ public_items IMAGEJ_ROI_HEADER2
                    (roi_header2_image (be_dec_s (be_enc 4 (64 + 4 * int (length points))) + 52)
                       (int (length (synth_name name t index rnd)))))"
proof -
  let ?pts = "map (\<lambda>(x, y). (np_wrap dt (x - min_list (map fst points)), np_wrap dt (y - min_list (map snd points)))) points"
  from create_roi_Inr [OF enc] obtain nb where
    nb: "utf16be_encode (synth_name name t index rnd) = Inr nb"
    and bs: "bs = roi_header_image (min_list (map snd points)) (min_list (map fst points)) (int (length points)) t
              @ encode_points ?pts
              @ roi_header2_image (be_dec_s (be_enc 4 (64 + 4 * int (length points))) + 52)
                  (int (length (synth_name name t index rnd)))
              @ nb"
    by blast
  from utf16_bmp_roundtrip [OF bmp] nb have
    nb': "length nb = 2 * length (synth_name name t index rnd)"
         "utf16be_decode nb = Inr (synth_name name t index rnd)"
    by auto
  have "imagej_parse_overlay mem bs =
           Inr ([(''name'', PyStr (synth_name name t index rnd)),
                 (''coordinates'', PyArray (map (\<lambda>p. (be_dec_s (be_enc 2 (fst p)), be_dec_s (be_enc 2 (snd p)))) ?pts))]
                @ public_items IMAGEJ_ROI_HEADER
                    (roi_header_image (min_list (map snd points)) (min_list (map fst points))
                       (int (length ?pts)) t)
                @ public_items IMAGEJ_ROI_HEADER2
                    (roi_header2_image (be_dec_s (be_enc 4 (64 + 4 * int (length ?pts))) + 52)
                       (int (length (synth_name name t index rnd)))))"
    by (rule parse_encoded [where nb = nb]) (use n len in \<open>simp_all add: bs nb nb'\<close>)
  moreover have "map (\<lambda>p. (be_dec_s (be_enc 2 (fst p)), be_dec_s (be_enc 2 (snd p)))) ?pts
      = map (\<lambda>(x, y). (be_dec_s (be_enc 2 (np_wrap dt (x - min_list (map fst points)))),
                      be_dec_s (be_enc 2 (np_wrap dt (y - min_list (map snd points)))))) points"
    by (simp add: case_prod_beta)
  ultimately show ?thesis by simp
qed

section \<open>Decoding an encoded record\<close>

lemma translate_back:
  "map (\<lambda>(x, y). (x + (a :: int), y + (b :: int))) (map (\<lambda>(x, y). (x - a, y - b)) pts) = pts"
  by (induction pts) auto

lemma np_array_columns:
  assumes "np_array dt points"
  shows "\<forall>v \<in> set (map fst points). np_value dt v" "\<forall>v \<in> set (map snd points). np_value dt v"
  using assms by (auto simp: np_array_def list_all_iff)

lemma translated_exact:
  assumes arr: "np_array dt points"
    and fits: "\<forall>(x, y) \<in> set points.
         x - min_list (map fst points) \<le> 32767 \<and> y - min_list (map snd points) \<le> 32767"
    and int8: "dt = Int8 \<longrightarrow> (\<forall>(x, y) \<in> set points.
         x - min_list (map fst points) \<le> 127 \<and> y - min_list (map snd points) \<le> 127)"
    and p: "p \<in> set points"
  shows "np_wrap dt (fst p - min_list (map fst points)) = fst p - min_list (map fst points)"
    and "np_wrap dt (snd p - min_list (map snd points)) = snd p - min_list (map snd points)"
    and "0 \<le> fst p - min_list (map fst points)" and "0 \<le> snd p - min_list (map snd points)"
proof -
  have x: "fst p \<in> set (map fst points)" and y: "snd p \<in> set (map snd points)"
    using p by simp_all
  have fx: "fst p - min_list (map fst points) \<le> 32767" and fy: "snd p - min_list (map snd points) \<le> 32767"
    using fits p by (auto simp: case_prod_beta)
  have ex: "dt = Int8 \<Longrightarrow> fst p - min_list (map fst points) \<le> 127"
    and ey: "dt = Int8 \<Longrightarrow> snd p - min_list (map snd points) \<le> 127"
    using int8 p by (auto simp: case_prod_beta)
  note wx = wrap_translated [OF np_array_columns(1) [OF arr] x fx ex]
  note wy = wrap_translated [OF np_array_columns(2) [OF arr] y fy ey]
  show "np_wrap dt (fst p - min_list (map fst points)) = fst p - min_list (map fst points)"
    and "np_wrap dt (snd p - min_list (map snd points)) = snd p - min_list (map snd points)"
    and "0 \<le> fst p - min_list (map fst points)" and "0 \<le> snd p - min_list (map snd points)"
    using wx wy by simp_all
qed

text \<open>
  Claim C1, as the code has it.  Take a non-empty integer array of at most 32767 points
  whose least coordinates \<open>min x\<close> and \<open>min y\<close> lie in the signed 16-bit range, whose
  coordinates are at most 32767 after translation by \<open>(- min x, - min y)\<close> and, when
  the array is an \<^verbatim>\<open>int8\<close> array, at most 127 (the subtraction is done in the element
  type of the array); encode it under a name of the basic multilingual plane (shorter
  than \<open>2 ^ 31\<close>) and a frame index that fits a C \<^verbatim>\<open>long\<close>.  Then the encoder returns
  a record, the decoder accepts it whatever the memory around it, and the result holds
  the name, the translated coordinates and \<open>left = min x\<close>, \<open>top = min y\<close>, so that
  adding \<open>(left, top)\<close> back gives the points exactly.
\<close>

theorem roundtrip:
  assumes ne: "points \<noteq> []"
    and arr: "np_array dt points"
    and n: "length points \<le> 32767"
    and left: "- 32768 \<le> min_list (map fst points)" "min_list (map fst points) \<le> 32767"
    and top: "- 32768 \<le> min_list (map snd points)" "min_list (map snd points) \<le> 32767"
    and translated: "\<forall>(x, y) \<in> set points.
         x - min_list (map fst points) \<le> 32767 \<and> y - min_list (map snd points) \<le> 32767"
    and int8: "dt = Int8 \<longrightarrow> (\<forall>(x, y) \<in> set points.
         x - min_list (map fst points) \<le> 127 \<and> y - min_list (map snd points) \<le> 127)"
    and t: "- (2 ^ 63) \<le> t + 1" "t + 1 < 2 ^ 63"
    and bmp: "\<forall>cp \<in> set (synth_name name t index rnd). cp < 0xD800 \<or> (0xE000 \<le> cp \<and> cp < 0x10000)"
    and len: "int (length (synth_name name t index rnd)) < 2 ^ 31"
  shows "\<exists>bs ov coords.
           imagej_create_roi dt points name c z t index rnd = Inr bs
         \<and> imagej_parse_overlay mem bs = Inr ov
         \<and> map_of ov ''name'' = Some (PyStr (synth_name name t index rnd))
         \<and> map_of ov ''coordinates'' = Some (PyArray coords)
         \<and> coords = map (\<lambda>(x, y). (x - min_list (map fst points), y - min_list (map snd points))) points
         \<and> map_of ov ''left'' = Some (PyInt (min_list (map fst points)))
         \<and> map_of ov ''top'' = Some (PyInt (min_list (map snd points)))
         \<and> map (\<lambda>(x, y). (x + min_list (map fst points), y + min_list (map snd points))) coords = points"
proof -
  let ?l = "min_list (map fst points)" and ?t = "min_list (map snd points)"
  let ?nm = "synth_name name t index rnd"
  from utf16_bmp_roundtrip [OF bmp] obtain nb where nb: "utf16be_encode ?nm = Inr nb"
    by blast
  have "\<exists>bs. imagej_create_roi dt points name c z t index rnd = Inr bs"
    unfolding create_roi_unfold using ne n t len nb by simp
  then obtain bs where enc: "imagej_create_roi dt points name c z t index rnd = Inr bs" ..
  note dec = decode_of_encode [OF enc n bmp len, of mem]
  have w: "be_dec_s (be_enc 2 v) = v" if "- 32768 \<le> v" "v \<le> 32767" for v
    using that by (intro be_dec_s_enc) simp_all
  have pt: "be_dec_s (be_enc 2 (np_wrap dt (fst p - ?l))) = fst p - ?l
          \<and> be_dec_s (be_enc 2 (np_wrap dt (snd p - ?t))) = snd p - ?t" if p: "p \<in> set points" for p
  proof -
    note e = translated_exact [OF arr translated int8 p]
    have "fst p - ?l \<le> 32767" "snd p - ?t \<le> 32767"
      using translated p by (auto simp: case_prod_beta)
    with e show ?thesis
      by (simp add: w)
  qed
  have coords: "map (\<lambda>(x, y). (be_dec_s (be_enc 2 (np_wrap dt (x - ?l))), be_dec_s (be_enc 2 (np_wrap dt (y - ?t))))) points
      = map (\<lambda>(x, y). (x - ?l, y - ?t)) points"
    by (intro map_cong refl) (simp add: case_prod_beta pt)
  have readd: "map (\<lambda>(x, y). (x + ?l, y + ?t)) (map (\<lambda>(x, y). (x - ?l, y - ?t)) points) = points"
    by (rule translate_back)
  let ?h1 = "public_items IMAGEJ_ROI_HEADER (roi_header_image ?t ?l (int (length points)) t)"
  let ?h2 = "public_items IMAGEJ_ROI_HEADER2
               (roi_header2_image (be_dec_s (be_enc 4 (64 + 4 * int (length points))) + 52) (int (length ?nm)))"
  let ?ov = "[(''name'', PyStr ?nm), (''coordinates'', PyArray (map (\<lambda>(x, y). (x - ?l, y - ?t)) points))]
             @ ?h1 @ ?h2"
  have ov: "imagej_parse_overlay mem bs = Inr ?ov"
    using dec by (simp only: coords)
  have k1: "map_of ?ov ''name'' = Some (PyStr ?nm)"
    and k2: "map_of ?ov ''coordinates'' = Some (PyArray (map (\<lambda>(x, y). (x - ?l, y - ?t)) points))"
    by simp_all
  have k3: "map_of ?ov ''left'' = Some (PyInt ?l)" and k4: "map_of ?ov ''top'' = Some (PyInt ?t)"
    using w [OF left] w [OF top] by (simp_all add: public_items_header_image)
  show ?thesis
    by (intro exI [of _ bs] exI [of _ ?ov] exI [of _ "map (\<lambda>(x, y). (x - ?l, y - ?t)) points"]
          conjI enc ov k1 k2 k3 k4 readd refl)
qed

text \<open>
  The scenario of the specification: the points \<open>(10,20), (15,20), (15,25), (10,25)\<close>
  with \<open>t = 2\<close> and the name \<^verbatim>\<open>cellA\<close> decode to that name and to the coordinates
  \<open>(0,0), (5,0), (5,5), (0,5)\<close>.
\<close>

theorem roundtrip_witness:
  "\<exists>bs ov.
      imagej_create_roi Int64 [(10, 20), (15, 20), (15, 25), (10, 25)] (Some (ascii ''cellA'')) 0 0 2 None 0 = Inr bs
    \<and> imagej_parse_overlay (\<lambda>i. 0) bs = Inr ov
    \<and> map_of ov ''name'' = Some (PyStr (ascii ''cellA''))
    \<and> map_of ov ''coordinates'' = Some (PyArray [(0, 0), (5, 0), (5, 5), (0, 5)])
    \<and> map_of ov ''left'' = Some (PyInt 10)
    \<and> map_of ov ''top'' = Some (PyInt 20)
    \<and> map (\<lambda>(x, y). (x + 10, y + 20)) [(0, 0), (5, 0), (5, 5), (0, 5)]
          = ([(10, 20), (15, 20), (15, 25), (10, 25)] :: (int \<times> int) list)"
proof -
  let ?P = "[(10, 20), (15, 20), (15, 25), (10, 25)] :: (int \<times> int) list"
  let ?nm = "Some (ascii ''cellA'')"
  have m: "min_list (map fst ?P) = 10" "min_list (map snd ?P) = 20"
    by simp_all
  have nm: "synth_name ?nm 2 None 0 = ascii ''cellA''"
    by (simp add: synth_name_def)
  have "\<exists>bs ov coords.
           imagej_create_roi Int64 ?P ?nm 0 0 2 None 0 = Inr bs
         \<and> imagej_parse_overlay (\<lambda>i. 0) bs = Inr ov
         \<and> map_of ov ''name'' = Some (PyStr (synth_name ?nm 2 None 0))
         \<and> map_of ov ''coordinates'' = Some (PyArray coords)
         \<and> coords = map (\<lambda>(x, y). (x - min_list (map fst ?P), y - min_list (map snd ?P))) ?P
         \<and> map_of ov ''left'' = Some (PyInt (min_list (map fst ?P)))
         \<and> map_of ov ''top'' = Some (PyInt (min_list (map snd ?P)))
         \<and> map (\<lambda>(x, y). (x + min_list (map fst ?P), y + min_list (map snd ?P))) coords = ?P"
    by (rule roundtrip)
       (simp_all add: m synth_name_def ascii_def np_array_def np_value_def np_min_def np_max_def)
  then obtain bs ov where
    "imagej_create_roi Int64 ?P ?nm 0 0 2 None 0 = Inr bs" "imagej_parse_overlay (\<lambda>i. 0) bs = Inr ov"
    "map_of ov ''name'' = Some (PyStr (synth_name ?nm 2 None 0))"
    "map_of ov ''coordinates'' = Some (PyArray (map (\<lambda>(x, y). (x - min_list (map fst ?P), y - min_list (map snd ?P))) ?P))"
    "map_of ov ''left'' = Some (PyInt (min_list (map fst ?P)))"
    "map_of ov ''top'' = Some (PyInt (min_list (map snd ?P)))"
    by blast
  then show ?thesis
    unfolding m nm by (intro exI [of _ bs] exI [of _ ov]) simp
qed

lemma wrapped_encoded:
  "imagej_create_roi Int64 [(40000, 0)] (Some (ascii ''a'')) 0 0 0 None 0 =
     Inr [73, 111, 117, 116, 0, 226, 7, 0, 0, 0, 156, 64, 0, 0, 0, 0, 0, 1, 0, 0, 0, 0, 0, 0, 0, 0,
      0, 0, 0, 0, 0, 0, 0, 0, 0, 0, 0, 0, 0, 0, 0, 0, 0, 0, 0, 0, 0, 0, 0, 0, 0, 40, 0, 0, 0, 0,
      0, 0, 0, 1, 0, 0, 0, 68, 0, 0, 0, 0, 0, 0, 0, 0, 0, 0, 0, 0, 0, 0, 0, 0, 0, 0, 0, 0, 0, 0,
      0, 120, 0, 0, 0, 1, 0, 0, 0, 0, 0, 0, 0, 0, 0, 0, 0, 0, 0, 0, 0, 0, 0, 0, 0, 0, 0, 0, 0,
      0, 0, 0, 0, 0, 0, 97]"
  by (simp add: create_roi_unfold roi_header_image_def roi_header2_image_def synth_name_def ascii_def
        then_do_def be_enc_1 be_enc_2 be_enc_4 IJM_ROI_VERSION_def CONST_IJ_FREEHAND_def
        byte_of_char_def encode_points_def be_dec_s_4 replicate_num np_wrap_def np_min_def)


text \<open>
  As claim C1 is stated, with the translated coordinates alone in the 16-bit range, it
  fails: the single point \<open>(40000, 0)\<close> translates to \<open>(0, 0)\<close>, but \<open>left\<close> is stored
  in a 16-bit field and decodes to \<open>- 25536\<close>, so adding it back gives \<open>(- 25536, 0)\<close>.
\<close>

theorem roundtrip_counterexample:
  "imagej_create_roi Int64 [(40000, 0)] (Some (ascii ''a'')) 0 0 0 None 0 = Inr [73, 111, 117, 116, 0, 226, 7, 0, 0, 0, 156, 64, 0, 0, 0, 0, 0, 1, 0, 0, 0, 0, 0, 0, 0, 0,
      0, 0, 0, 0, 0, 0, 0, 0, 0, 0, 0, 0, 0, 0, 0, 0, 0, 0, 0, 0, 0, 0, 0, 0, 0, 40, 0, 0, 0, 0,
      0, 0, 0, 1, 0, 0, 0, 68, 0, 0, 0, 0, 0, 0, 0, 0, 0, 0, 0, 0, 0, 0, 0, 0, 0, 0, 0, 0, 0, 0,
      0, 120, 0, 0, 0, 1, 0, 0, 0, 0, 0, 0, 0, 0, 0, 0, 0, 0, 0, 0, 0, 0, 0, 0, 0, 0, 0, 0, 0,
      0, 0, 0, 0, 0, 0, 97]
   \<and> - 32768 \<le> (40000 :: int) - 40000 \<and> (40000 :: int) - 40000 \<le> 32767
   \<and> \<not> isl (imagej_parse_overlay (\<lambda>i. 0) [73, 111, 117, 116, 0, 226, 7, 0, 0, 0, 156, 64, 0, 0, 0, 0, 0, 1, 0, 0, 0, 0, 0, 0, 0, 0,
      0, 0, 0, 0, 0, 0, 0, 0, 0, 0, 0, 0, 0, 0, 0, 0, 0, 0, 0, 0, 0, 0, 0, 0, 0, 40, 0, 0, 0, 0,
      0, 0, 0, 1, 0, 0, 0, 68, 0, 0, 0, 0, 0, 0, 0, 0, 0, 0, 0, 0, 0, 0, 0, 0, 0, 0, 0, 0, 0, 0,
      0, 120, 0, 0, 0, 1, 0, 0, 0, 0, 0, 0, 0, 0, 0, 0, 0, 0, 0, 0, 0, 0, 0, 0, 0, 0, 0, 0, 0,
      0, 0, 0, 0, 0, 0, 97])
   \<and> map_of (projr (imagej_parse_overlay (\<lambda>i. 0) [73, 111, 117, 116, 0, 226, 7, 0, 0, 0, 156, 64, 0, 0, 0, 0, 0, 1, 0, 0, 0, 0, 0, 0, 0, 0,
      0, 0, 0, 0, 0, 0, 0, 0, 0, 0, 0, 0, 0, 0, 0, 0, 0, 0, 0, 0, 0, 0, 0, 0, 0, 40, 0, 0, 0, 0,
      0, 0, 0, 1, 0, 0, 0, 68, 0, 0, 0, 0, 0, 0, 0, 0, 0, 0, 0, 0, 0, 0, 0, 0, 0, 0, 0, 0, 0, 0,
      0, 120, 0, 0, 0, 1, 0, 0, 0, 0, 0, 0, 0, 0, 0, 0, 0, 0, 0, 0, 0, 0, 0, 0, 0, 0, 0, 0, 0,
      0, 0, 0, 0, 0, 0, 97])) ''coordinates'' = Some (PyArray [(0, 0)])
   \<and> map_of (projr (imagej_parse_overlay (\<lambda>i. 0) [73, 111, 117, 116, 0, 226, 7, 0, 0, 0, 156, 64, 0, 0, 0, 0, 0, 1, 0, 0, 0, 0, 0, 0, 0, 0,
      0, 0, 0, 0, 0, 0, 0, 0, 0, 0, 0, 0, 0, 0, 0, 0, 0, 0, 0, 0, 0, 0, 0, 0, 0, 40, 0, 0, 0, 0,
      0, 0, 0, 1, 0, 0, 0, 68, 0, 0, 0, 0, 0, 0, 0, 0, 0, 0, 0, 0, 0, 0, 0, 0, 0, 0, 0, 0, 0, 0,
      0, 120, 0, 0, 0, 1, 0, 0, 0, 0, 0, 0, 0, 0, 0, 0, 0, 0, 0, 0, 0, 0, 0, 0, 0, 0, 0, 0, 0,
      0, 0, 0, 0, 0, 0, 97])) ''left'' = Some (PyInt (- 25536))
   \<and> map_of (projr (imagej_parse_overlay (\<lambda>i. 0) [73, 111, 117, 116, 0, 226, 7, 0, 0, 0, 156, 64, 0, 0, 0, 0, 0, 1, 0, 0, 0, 0, 0, 0, 0, 0,
      0, 0, 0, 0, 0, 0, 0, 0, 0, 0, 0, 0, 0, 0, 0, 0, 0, 0, 0, 0, 0, 0, 0, 0, 0, 40, 0, 0, 0, 0,
      0, 0, 0, 1, 0, 0, 0, 68, 0, 0, 0, 0, 0, 0, 0, 0, 0, 0, 0, 0, 0, 0, 0, 0, 0, 0, 0, 0, 0, 0,
      0, 120, 0, 0, 0, 1, 0, 0, 0, 0, 0, 0, 0, 0, 0, 0, 0, 0, 0, 0, 0, 0, 0, 0, 0, 0, 0, 0, 0,
      0, 0, 0, 0, 0, 0, 97])) ''top'' = Some (PyInt 0)
   \<and> (0 + (- 25536), 0 + 0) \<noteq> (40000 :: int, 0 :: int)"
proof -
  have w: "be_dec_s (be_enc 2 40000) = - 25536" "be_dec_s (be_enc 2 0) = 0"
    by (simp_all add: be_enc_2 be_dec_s_2)
  have "imagej_parse_overlay (\<lambda>i. 0) [73, 111, 117, 116, 0, 226, 7, 0, 0, 0, 156, 64, 0, 0, 0, 0, 0, 1, 0, 0, 0, 0, 0, 0, 0, 0,
      0, 0, 0, 0, 0, 0, 0, 0, 0, 0, 0, 0, 0, 0, 0, 0, 0, 0, 0, 0, 0, 0, 0, 0, 0, 40, 0, 0, 0, 0,
      0, 0, 0, 1, 0, 0, 0, 68, 0, 0, 0, 0, 0, 0, 0, 0, 0, 0, 0, 0, 0, 0, 0, 0, 0, 0, 0, 0, 0, 0,
      0, 120, 0, 0, 0, 1, 0, 0, 0, 0, 0, 0, 0, 0, 0, 0, 0, 0, 0, 0, 0, 0, 0, 0, 0, 0, 0, 0, 0,
      0, 0, 0, 0, 0, 0, 97] =
     Inr ([(''name'', PyStr (ascii ''a'')), (''coordinates'', PyArray [(0, 0)])]
          @ public_items IMAGEJ_ROI_HEADER (roi_header_image 0 40000 1 0)
          @ public_items IMAGEJ_ROI_HEADER2 (roi_header2_image (be_dec_s (be_enc 4 68) + 52) 1))"
    using decode_of_encode [OF wrapped_encoded, of "\<lambda>i. 0"] w
    by (simp add: synth_name_def ascii_def np_wrap_def np_min_def)
  then show ?thesis
    using w by (simp add: wrapped_encoded public_items_header_image)
qed


section \<open>The bounding box\<close>

lemma pairs_of_concat_append:
  "pairs_of (concat (map (\<lambda>p. be_enc 2 (f p)) pts) @ ys) = map (\<lambda>p. be_enc 2 (f p)) pts @ pairs_of ys"
  by (induction pts) (simp_all add: be_enc_2)

lemma serialized_values:
  "map be_dec_s (pairs_of (encode_points pts))
     = map (\<lambda>p. be_dec_s (be_enc 2 (fst p))) pts @ map (\<lambda>p. be_dec_s (be_enc 2 (snd p))) pts"
  by (simp add: encode_points_def pairs_of_concat_append pairs_of_concat)

text \<open>
  Claim C3, as the code has it.  Every record that the encoder returns comes from a
  non-empty array.  The header field \<open>left\<close> reads as the least \<open>x\<close> of the points
  whenever that value lies in the signed 16-bit range of the field, and \<open>top\<close> as the
  least \<open>y\<close> likewise.  When the points are an integer array whose coordinates are at
  most 32767 after translation by \<open>(- left, - top)\<close>, and at most 127 for an \<^verbatim>\<open>int8\<close>
  array, the \<open>2 * n\<close> values serialized after the header (the \<open>x\<close> column, then the
  \<open>y\<close> column) are the translated coordinates, and none of them is negative.
\<close>

theorem bounding_box:
  assumes enc: "imagej_create_roi dt points name c z t index rnd = Inr bs"
  shows "points \<noteq> []
       \<and> min_list (map fst points) = Min (fst ` set points)
       \<and> min_list (map snd points) = Min (snd ` set points)
       \<and> (- 32768 \<le> min_list (map fst points) \<and> min_list (map fst points) \<le> 32767 \<longrightarrow>
            getint IMAGEJ_ROI_HEADER (take 64 bs) ''left'' = Inr (min_list (map fst points)))
       \<and> (- 32768 \<le> min_list (map snd points) \<and> min_list (map snd points) \<le> 32767 \<longrightarrow>
            getint IMAGEJ_ROI_HEADER (take 64 bs) ''top'' = Inr (min_list (map snd points)))
       \<and> (np_array dt points
          \<and> (\<forall>(x, y) \<in> set points.
                x - min_list (map fst points) \<le> 32767 \<and> y - min_list (map snd points) \<le> 32767)
          \<and> (dt = Int8 \<longrightarrow> (\<forall>(x, y) \<in> set points.
                x - min_list (map fst points) \<le> 127 \<and> y - min_list (map snd points) \<le> 127)) \<longrightarrow>
            map be_dec_s (pairs_of (take (4 * length points) (drop 64 bs)))
              = map (\<lambda>(x, y). x - min_list (map fst points)) points
                @ map (\<lambda>(x, y). y - min_list (map snd points)) points
          \<and> (\<forall>v \<in> set (map be_dec_s (pairs_of (take (4 * length points) (drop 64 bs)))). 0 \<le> v))"
proof -
  let ?l = "min_list (map fst points)" and ?t = "min_list (map snd points)"
  let ?pts = "map (\<lambda>(x, y). (np_wrap dt (x - ?l), np_wrap dt (y - ?t))) points"
  from create_roi_Inr [OF enc] obtain nb h1 h2 where ne: "points \<noteq> []"
    and bs: "bs = h1 @ encode_points ?pts @ h2 @ nb"
    and h1: "h1 = roi_header_image ?t ?l (int (length points)) t"
    by blast
  have ml: "?l = Min (fst ` set points)" and mt: "?t = Min (snd ` set points)"
    using ne by (simp_all add: min_list_Min)
  have w: "be_dec_s (be_enc 2 v) = v" if "- 32768 \<le> v" "v \<le> 32767" for v
    using that by (intro be_dec_s_enc) simp_all
  have t1: "take 64 bs = h1" and t2: "take (4 * length points) (drop 64 bs) = encode_points ?pts"
    by (simp_all add: bs h1)
  have gl: "getint IMAGEJ_ROI_HEADER (take 64 bs) ''left'' = Inr ?l" if "- 32768 \<le> ?l" "?l \<le> 32767"
    using w [OF that] by (simp add: t1 h1 getint_def getattr_def header_image_fields)
  have gt: "getint IMAGEJ_ROI_HEADER (take 64 bs) ''top'' = Inr ?t" if "- 32768 \<le> ?t" "?t \<le> 32767"
    using w [OF that] by (simp add: t1 h1 getint_def getattr_def header_image_fields)
  have vals: "map be_dec_s (pairs_of (take (4 * length points) (drop 64 bs)))
                = map (\<lambda>(x, y). x - ?l) points @ map (\<lambda>(x, y). y - ?t) points
            \<and> (\<forall>v \<in> set (map be_dec_s (pairs_of (take (4 * length points) (drop 64 bs)))). 0 \<le> v)"
    if arr: "np_array dt points"
      and fits: "\<forall>(x, y) \<in> set points. x - ?l \<le> 32767 \<and> y - ?t \<le> 32767"
      and int8: "dt = Int8 \<longrightarrow> (\<forall>(x, y) \<in> set points. x - ?l \<le> 127 \<and> y - ?t \<le> 127)"
  proof -
    have pt: "be_dec_s (be_enc 2 (np_wrap dt (fst p - ?l))) = fst p - ?l
            \<and> be_dec_s (be_enc 2 (np_wrap dt (snd p - ?t))) = snd p - ?t
            \<and> 0 \<le> fst p - ?l \<and> 0 \<le> snd p - ?t" if p: "p \<in> set points" for p
    proof -
      note e = translated_exact [OF arr fits int8 p]
      have "fst p - ?l \<le> 32767" "snd p - ?t \<le> 32767"
        using fits p by (auto simp: case_prod_beta)
      with e show ?thesis
        by (simp add: w)
    qed
    have x: "map (\<lambda>p. be_dec_s (be_enc 2 (fst p))) ?pts = map (\<lambda>(x, y). x - ?l) points"
      by (simp add: case_prod_beta pt cong: map_cong)
    have y: "map (\<lambda>p. be_dec_s (be_enc 2 (snd p))) ?pts = map (\<lambda>(x, y). y - ?t) points"
      by (simp add: case_prod_beta pt cong: map_cong)
    have v: "map be_dec_s (pairs_of (take (4 * length points) (drop 64 bs)))
                = map (\<lambda>(x, y). x - ?l) points @ map (\<lambda>(x, y). y - ?t) points"
      by (simp only: t2 serialized_values x y)
    have "\<forall>v \<in> set (map be_dec_s (pairs_of (take (4 * length points) (drop 64 bs)))). 0 \<le> v"
      unfolding v using pt by (auto simp: case_prod_beta)
    with v show ?thesis ..
  qed
  show ?thesis
    using ne ml mt gl gt vals by blast
qed

text \<open>The scenario of the specification: \<open>left = 10\<close>, \<open>top = 20\<close>, and the values \<open>0\<close> and \<open>5\<close>.\<close>

theorem bounding_box_witness:
  "imagej_create_roi Int64 [(10, 20), (15, 20), (15, 25), (10, 25)] (Some (ascii ''cellA'')) 0 0 2 None 0
     = Inr [73, 111, 117, 116, 0, 226, 7, 0, 0, 20, 0, 10, 0, 0, 0, 0, 0, 4, 0, 0, 0,
  0, 0, 0, 0, 0, 0, 0, 0, 0, 0, 0, 0, 0, 0, 0, 0, 0, 0, 0, 0, 0, 0, 0, 0, 0,
  0, 0, 0, 0, 0, 40, 0, 0, 0, 0, 0, 0, 0, 3, 0, 0, 0, 80, 0, 0, 0, 5, 0, 5,
  0, 0, 0, 0, 0, 0, 0, 5, 0, 5, 0, 0, 0, 0, 0, 0, 0, 0, 0, 0, 0, 0, 0, 0, 0,
  0, 0, 0, 0, 132, 0, 0, 0, 5, 0, 0, 0, 0, 0, 0, 0, 0, 0, 0, 0, 0, 0, 0, 0,
  0, 0, 0, 0, 0, 0, 0, 0, 0, 0, 0, 0, 0, 0, 99, 0, 101, 0, 108, 0, 108, 0,
  65]
   \<and> np_array Int64 [(10, 20), (15, 20), (15, 25), (10, 25)]
   \<and> Min (fst ` set [(10 :: int, 20 :: int), (15, 20), (15, 25), (10, 25)]) = 10
   \<and> Min (snd ` set [(10 :: int, 20 :: int), (15, 20), (15, 25), (10, 25)]) = 20
   \<and> getint IMAGEJ_ROI_HEADER [73, 111, 117, 116, 0, 226, 7, 0, 0, 20, 0, 10, 0, 0, 0, 0, 0, 4, 0, 0, 0,
  0, 0, 0, 0, 0, 0, 0, 0, 0, 0, 0, 0, 0, 0, 0, 0, 0, 0, 0, 0, 0, 0, 0, 0, 0,
  0, 0, 0, 0, 0, 40, 0, 0, 0, 0, 0, 0, 0, 3, 0, 0, 0, 80] ''left'' = Inr 10
   \<and> getint IMAGEJ_ROI_HEADER [73, 111, 117, 116, 0, 226, 7, 0, 0, 20, 0, 10, 0, 0, 0, 0, 0, 4, 0, 0, 0,
  0, 0, 0, 0, 0, 0, 0, 0, 0, 0, 0, 0, 0, 0, 0, 0, 0, 0, 0, 0, 0, 0, 0, 0, 0,
  0, 0, 0, 0, 0, 40, 0, 0, 0, 0, 0, 0, 0, 3, 0, 0, 0, 80] ''top'' = Inr 20
   \<and> map be_dec_s (pairs_of [0, 0, 0, 5, 0, 5, 0, 0, 0, 0, 0, 0, 0, 5, 0, 5]) = [0, 5, 5, 0, 0, 0, 5, 5]"
proof -
  let ?P = "[(10, 20), (15, 20), (15, 25), (10, 25)] :: (int \<times> int) list"
  have m: "min_list (map fst ?P) = 10" "min_list (map snd ?P) = 20"
    by simp_all
  have a: "np_array Int64 ?P"
    by (simp add: np_array_def np_value_def np_min_def np_max_def)
  note b = bounding_box [OF scenario_encoded]
  show ?thesis
    using b a unfolding m by (simp add: scenario_encoded)
qed

lemma int8_encoded:
  "imagej_create_roi Int8 [(- 100, 0), (100, 0)] (Some (ascii ''a'')) 0 0 0 None 0 =
     Inr [73, 111, 117, 116, 0, 226, 7, 0, 0, 0, 255, 156, 0, 0, 0, 0, 0, 2, 0, 0, 0, 0, 0, 0, 0, 0,
      0, 0, 0, 0, 0, 0, 0, 0, 0, 0, 0, 0, 0, 0, 0, 0, 0, 0, 0, 0, 0, 0, 0, 0, 0, 40, 0, 0, 0, 0,
      0, 0, 0, 1, 0, 0, 0, 72, 0, 0, 255, 200, 0, 0, 0, 0, 0, 0, 0, 0, 0, 0, 0, 0, 0, 0, 0, 0, 0,
      0, 0, 0, 0, 0, 0, 124, 0, 0, 0, 1, 0, 0, 0, 0, 0, 0, 0, 0, 0, 0, 0, 0, 0, 0, 0, 0, 0, 0,
      0, 0, 0, 0, 0, 0, 0, 0, 0, 0, 0, 97]"
  by (simp add: create_roi_unfold roi_header_image_def roi_header2_image_def synth_name_def ascii_def
        then_do_def be_enc_1 be_enc_2 be_enc_4 IJM_ROI_VERSION_def CONST_IJ_FREEHAND_def
        byte_of_char_def encode_points_def be_dec_s_4 replicate_num np_wrap_def np_min_def)

text \<open>
  As claim C3 is stated, for every point sequence, it fails twice.  The single point
  \<open>(40000, 0)\<close> has \<open>min x = 40000\<close>, and the 16-bit field \<open>left\<close> reads \<open>- 25536\<close>.
  In the \<^verbatim>\<open>int8\<close> array \<open>(- 100, 0), (100, 0)\<close> the translated \<open>x\<close> of the second point
  is 200, which the element type holds as \<open>- 56\<close>: a negative value is serialized.
\<close>

theorem bounding_box_counterexample:
  "imagej_create_roi Int64 [(40000, 0)] (Some (ascii ''a'')) 0 0 0 None 0 = Inr [73, 111, 117, 116, 0, 226, 7, 0, 0, 0, 156, 64, 0, 0, 0, 0, 0, 1, 0, 0, 0, 0, 0, 0, 0, 0,
      0, 0, 0, 0, 0, 0, 0, 0, 0, 0, 0, 0, 0, 0, 0, 0, 0, 0, 0, 0, 0, 0, 0, 0, 0, 40, 0, 0, 0, 0,
      0, 0, 0, 1, 0, 0, 0, 68, 0, 0, 0, 0, 0, 0, 0, 0, 0, 0, 0, 0, 0, 0, 0, 0, 0, 0, 0, 0, 0, 0,
      0, 120, 0, 0, 0, 1, 0, 0, 0, 0, 0, 0, 0, 0, 0, 0, 0, 0, 0, 0, 0, 0, 0, 0, 0, 0, 0, 0, 0,
      0, 0, 0, 0, 0, 0, 97]
   \<and> np_array Int64 [(40000, 0)]
   \<and> Min (fst ` set [(40000 :: int, 0 :: int)]) = 40000
   \<and> getint IMAGEJ_ROI_HEADER (take 64 [73, 111, 117, 116, 0, 226, 7, 0, 0, 0, 156, 64, 0, 0, 0, 0, 0, 1, 0, 0, 0, 0, 0, 0, 0, 0,
      0, 0, 0, 0, 0, 0, 0, 0, 0, 0, 0, 0, 0, 0, 0, 0, 0, 0, 0, 0, 0, 0, 0, 0, 0, 40, 0, 0, 0, 0,
      0, 0, 0, 1, 0, 0, 0, 68, 0, 0, 0, 0, 0, 0, 0, 0, 0, 0, 0, 0, 0, 0, 0, 0, 0, 0, 0, 0, 0, 0,
      0, 120, 0, 0, 0, 1, 0, 0, 0, 0, 0, 0, 0, 0, 0, 0, 0, 0, 0, 0, 0, 0, 0, 0, 0, 0, 0, 0, 0,
      0, 0, 0, 0, 0, 0, 97]) ''left'' = Inr (- 25536)
   \<and> imagej_create_roi Int8 [(- 100, 0), (100, 0)] (Some (ascii ''a'')) 0 0 0 None 0 = Inr [73, 111, 117, 116, 0, 226, 7, 0, 0, 0, 255, 156, 0, 0, 0, 0, 0, 2, 0, 0, 0, 0, 0, 0, 0, 0,
      0, 0, 0, 0, 0, 0, 0, 0, 0, 0, 0, 0, 0, 0, 0, 0, 0, 0, 0, 0, 0, 0, 0, 0, 0, 40, 0, 0, 0, 0,
      0, 0, 0, 1, 0, 0, 0, 72, 0, 0, 255, 200, 0, 0, 0, 0, 0, 0, 0, 0, 0, 0, 0, 0, 0, 0, 0, 0, 0,
      0, 0, 0, 0, 0, 0, 124, 0, 0, 0, 1, 0, 0, 0, 0, 0, 0, 0, 0, 0, 0, 0, 0, 0, 0, 0, 0, 0, 0,
      0, 0, 0, 0, 0, 0, 0, 0, 0, 0, 0, 97]
   \<and> np_array Int8 [(- 100, 0), (100, 0)]
   \<and> map be_dec_s (pairs_of (take (4 * length [(- 100 :: int, 0 :: int), (100, 0)]) (drop 64 [73, 111, 117, 116, 0, 226, 7, 0, 0, 0, 255, 156, 0, 0, 0, 0, 0, 2, 0, 0, 0, 0, 0, 0, 0, 0,
      0, 0, 0, 0, 0, 0, 0, 0, 0, 0, 0, 0, 0, 0, 0, 0, 0, 0, 0, 0, 0, 0, 0, 0, 0, 40, 0, 0, 0, 0,
      0, 0, 0, 1, 0, 0, 0, 72, 0, 0, 255, 200, 0, 0, 0, 0, 0, 0, 0, 0, 0, 0, 0, 0, 0, 0, 0, 0, 0,
      0, 0, 0, 0, 0, 0, 124, 0, 0, 0, 1, 0, 0, 0, 0, 0, 0, 0, 0, 0, 0, 0, 0, 0, 0, 0, 0, 0, 0,
      0, 0, 0, 0, 0, 0, 0, 0, 0, 0, 0, 97])))
        = [0, - 56, 0, 0]"
  by (simp add: wrapped_encoded int8_encoded getint_def getattr_def be_dec_s_2
        np_array_def np_value_def np_min_def np_max_def)

section \<open>Offsets that do not fit their fields\<close>

lemma header2_offset_read:
  assumes "imagej_create_roi dt points name c z t index rnd = Inr bs"
  shows "getint IMAGEJ_ROI_HEADER (take 64 bs) ''header2_offset''
           = Inr (be_dec_s (be_enc 4 (64 + 4 * int (length points))))"
    and "getint IMAGEJ_ROI_HEADER2 (take 52 (drop (64 + 4 * length points) bs)) ''name_offset''
           = Inr (be_dec_s (be_enc 4 (be_dec_s (be_enc 4 (64 + 4 * int (length points))) + 52)))"
proof -
  let ?n = "int (length points)"
  let ?h2 = "be_dec_s (be_enc 4 (64 + 4 * ?n))"
  from create_roi_Inr [OF assms] obtain nb h1 h2 where
    bs: "bs = h1 @ encode_points (map (\<lambda>(x, y). (np_wrap dt (x - min_list (map fst points)), np_wrap dt (y - min_list (map snd points)))) points)
              @ h2 @ nb"
    and h1: "h1 = roi_header_image (min_list (map snd points)) (min_list (map fst points)) ?n t"
    and h2: "h2 = roi_header2_image (?h2 + 52) (int (length (synth_name name t index rnd)))"
    by blast
  have t1: "take 64 bs = h1" and t2: "take 52 (drop (64 + 4 * length points) bs) = h2"
    by (simp_all add: bs h1 h2)
  show "getint IMAGEJ_ROI_HEADER (take 64 bs) ''header2_offset'' = Inr ?h2"
    by (simp add: t1 h1 getint_def getattr_def then_do_def header_image_fields)
  show "getint IMAGEJ_ROI_HEADER2 (take 52 (drop (64 + 4 * length points) bs)) ''name_offset''
             = Inr (be_dec_s (be_enc 4 (?h2 + 52)))"
    by (simp add: t2 h2 getint_def getattr_def then_do_def header2_image_fields)
qed

lemma many_points_encoded:
  "\<not> isl (imagej_create_roi Int16 (replicate 536870912 (0, 0)) (Some (ascii ''a'')) 0 0 0 None 0)"
  by (simp add: create_roi_unfold synth_name_def ascii_def be_enc_2)

text \<open>
  As claim C2 is stated, for every record, it fails: for \<open>2 ^ 29\<close> points the primary
  header size plus four times the number of points is \<open>2147483712\<close>, which the 4-byte
  field \<open>header2_offset\<close> holds as \<open>- 2147483584\<close>.
\<close>

theorem offset_invariants_counterexample:
  "\<not> isl (imagej_create_roi Int16 (replicate 536870912 (0, 0)) (Some (ascii ''a'')) 0 0 0 None 0)
   \<and> np_array Int16 (replicate 536870912 (0, 0))
   \<and> int (itemsize IMAGEJ_ROI_HEADER) + 4 * int (length (replicate 536870912 (0 :: int, 0 :: int))) = 2147483712
   \<and> getint IMAGEJ_ROI_HEADER
         (take 64 (projr (imagej_create_roi Int16 (replicate 536870912 (0, 0)) (Some (ascii ''a'')) 0 0 0 None 0)))
         ''header2_offset'' = Inr (- 2147483584)
   \<and> getint IMAGEJ_ROI_HEADER2
         (take 52 (drop (64 + 4 * length (replicate 536870912 (0 :: int, 0 :: int)))
            (projr (imagej_create_roi Int16 (replicate 536870912 (0, 0)) (Some (ascii ''a'')) 0 0 0 None 0))))
         ''name_offset'' = Inr (- 2147483532)"
proof -
  let ?r = "imagej_create_roi Int16 (replicate 536870912 (0, 0)) (Some (ascii ''a'')) 0 0 0 None 0"
  have ok: "\<not> isl ?r"
    by (rule many_points_encoded)
  then have r: "?r = Inr (projr ?r)"
    by (cases ?r) simp_all
  have v: "be_dec_s (be_enc 4 2147483712) = - 2147483584" "be_dec_s (be_enc 4 (- 2147483532)) = - 2147483532"
    by (simp_all add: be_enc_4 be_dec_s_4)
  have a: "np_array Int16 (replicate 536870912 (0, 0))"
    by (simp add: np_array_def list_all_iff np_value_def np_min_def np_max_def)
  show ?thesis
    using header2_offset_read [OF r] ok a v by (simp add: itemsize_header)
qed

section \<open>Buffers that are too short\<close>







end
